theory Spec2Isabelle
  imports Main "HOL-Library.List_Lexorder" "HOL-Library.Char_ord"
begin

section \<open>Strings\<close>

text \<open>
  The JavaScript string methods the command-line tool \<^verbatim>\<open>src/cli/cli.ts\<close> uses,
  on \<^typ>\<open>string\<close>. A string is held as the bytes of its UTF-8 encoding, the form in
  which a path reaches the file system. The patterns these methods are called with are
  ASCII, and an ASCII byte occurs in UTF-8 only as the character it is, so the methods
  do on the bytes what they do on the characters.
\<close>

definition startsWith :: "string \<Rightarrow> string \<Rightarrow> bool" where
  "startsWith s p = (take (length p) s = p)"

definition endsWith :: "string \<Rightarrow> string \<Rightarrow> bool" where
  "endsWith s p = (length p \<le> length s \<and> drop (length s - length p) s = p)"

text \<open>\<^verbatim>\<open>s.includes(c)\<close> for a one-character \<open>c\<close>.\<close>

definition includes_char :: "string \<Rightarrow> char \<Rightarrow> bool" where
  "includes_char s c = (c \<in> set s)"

text \<open>
  \<^verbatim>\<open>s.split(c)\<close> for a one-character separator: the pieces between the separators,
  never an empty array (\<^verbatim>\<open>''.split('_')\<close> is \<^verbatim>\<open>['']\<close>).
\<close>

fun split :: "char \<Rightarrow> string \<Rightarrow> string list" where
  "split c [] = [[]]"
| "split c (x # xs) =
     (if x = c then [] # split c xs
      else (case split c xs of
              [] \<Rightarrow> [[x]]
            | p # ps \<Rightarrow> (x # p) # ps))"

text \<open>\<^verbatim>\<open>parts.join(c)\<close>.\<close>

fun join_with :: "char \<Rightarrow> string list \<Rightarrow> string" where
  "join_with c [] = []"
| "join_with c [p] = p"
| "join_with c (p # q # ps) = p @ c # join_with c (q # ps)"

text \<open>\<^verbatim>\<open>parts.pop() || ''\<close>: the last piece, and the empty string for none.\<close>

fun pop_or_empty :: "string list \<Rightarrow> string" where
  "pop_or_empty [] = []"
| "pop_or_empty [p] = p"
| "pop_or_empty (p # q # ps) = pop_or_empty (q # ps)"

text \<open>\<^verbatim>\<open>parts[0]\<close> of a split, which always has a first piece.\<close>

fun first_piece :: "string list \<Rightarrow> string" where
  "first_piece [] = []"
| "first_piece (p # ps) = p"

text \<open>\<^verbatim>\<open>s.replace(/\.ts$/, '')\<close>.\<close>

definition strip_ts :: "string \<Rightarrow> string" where
  "strip_ts s = (if endsWith s ''.ts'' then take (length s - 3) s else s)"

text \<open>
  The last segment of a path, the part after its last slash
  (\<^verbatim>\<open>path.split('/').pop() || ''\<close>): the file name, where \<^verbatim>\<open>path.extname\<close> looks for
  an extension.
\<close>

definition last_segment :: "string \<Rightarrow> string" where
  "last_segment path = pop_or_empty (split CHR ''/'' path)"

section \<open>The migration engine (\<^verbatim>\<open>bolt migrate\<close>)\<close>

subsection \<open>The database and its ledger\<close>

text \<open>
  One row of the table \<^verbatim>\<open>migrations (id TEXT PRIMARY KEY, name TEXT NOT NULL,
  executed_at TEXT NOT NULL)\<close>.
\<close>

record ledger_row =
  row_id :: string
  row_name :: string
  executed_at :: string

text \<open>
  The SQLite database \<^verbatim>\<open>argon.db\<close>: the table \<^verbatim>\<open>migrations\<close> (\<open>None\<close> while it
  has not been created) and the rest of the schema and data, of a type the migration
  units fix.
\<close>

record 's database =
  migrations :: "ledger_row list option"
  tables :: 's

text \<open>\<^verbatim>\<open>CREATE TABLE IF NOT EXISTS migrations (...)\<close>.\<close>

definition create_migrations_table :: "'s database \<Rightarrow> 's database" where
  "create_migrations_table d =
     (case migrations d of
        None \<Rightarrow> d\<lparr>migrations := Some []\<rparr>
      | Some rows \<Rightarrow> d)"

text \<open>\<^verbatim>\<open>SELECT id FROM migrations\<close>, mapped to the ids.\<close>

definition select_ids :: "'s database \<Rightarrow> string list" where
  "select_ids d = (case migrations d of None \<Rightarrow> [] | Some rows \<Rightarrow> map row_id rows)"

text \<open>
  \<^verbatim>\<open>INSERT INTO migrations (id, name, executed_at) VALUES (?, ?, ?)\<close>: the statement
  throws when the table is missing and when the primary key is already there.
\<close>

definition insert_migration :: "'s database \<Rightarrow> ledger_row \<Rightarrow> string + 's database" where
  "insert_migration d r =
     (case migrations d of
        None \<Rightarrow> Inl ''no such table: migrations''
      | Some rows \<Rightarrow>
          if row_id r \<in> set (map row_id rows)
          then Inl ''UNIQUE constraint failed: migrations.id''
          else Inr (d\<lparr>migrations := Some (rows @ [r])\<rparr>))"

subsection \<open>Discovery\<close>

text \<open>
  A discovered migration unit, as the \<^verbatim>\<open>map\<close> callback of the run builds it from a
  file path: the id is the file name up to its first underscore, the name is the rest
  without the extension, and \<open>m_applied\<close> says whether the id was in the ledger when the
  run started.
\<close>

record migration =
  m_id :: string
  m_name :: string
  m_filename :: string
  m_path :: string
  m_applied :: bool

definition to_migration :: "string list \<Rightarrow> string \<Rightarrow> migration" where
  "to_migration appliedIds file =
     (let filename = pop_or_empty (split CHR ''/'' file);
          ident = first_piece (split CHR ''_'' filename);
          name = join_with CHR ''_'' (drop 1 (split CHR ''_'' (strip_ts filename)))
      in \<lparr>m_id = ident, m_name = name, m_filename = filename, m_path = file,
          m_applied = (ident \<in> set appliedIds)\<rparr>)"

text \<open>
  \<^verbatim>\<open>.sort((a, b) => a.id.localeCompare(b.id))\<close>. The comparison of the runtime's
  locale is a parameter \<open>cmp\<close>; the sort is stable, so it is the insertion sort that
  puts a unit before the first one it does not follow.
\<close>

fun insert_sorted :: "(string \<Rightarrow> string \<Rightarrow> int) \<Rightarrow> migration \<Rightarrow> migration list \<Rightarrow> migration list" where
  "insert_sorted cmp x [] = [x]"
| "insert_sorted cmp x (y # ys) =
     (if cmp (m_id x) (m_id y) \<le> 0 then x # y # ys else y # insert_sorted cmp x ys)"

definition sort_by_id :: "(string \<Rightarrow> string \<Rightarrow> int) \<Rightarrow> migration list \<Rightarrow> migration list" where
  "sort_by_id cmp ms = foldr (insert_sorted cmp) ms []"

text \<open>
  The migration files of a run: \<open>files\<close> is what \<^verbatim>\<open>listFilesRecursively(migrationsDir)\<close>
  returned.
\<close>

definition migrationFiles :: "(string \<Rightarrow> string \<Rightarrow> int) \<Rightarrow> string list \<Rightarrow> string list \<Rightarrow> migration list" where
  "migrationFiles cmp appliedIds files =
     sort_by_id cmp (map (to_migration appliedIds) (filter (\<lambda>file. endsWith file ''.ts'') files))"

subsection \<open>Applying one unit\<close>

text \<open>
  How the call of a forward or rollback operation ends: it returns (a value, or a
  promise that is fulfilled), it throws, or, an \<^verbatim>\<open>async\<close> function, it returns a promise
  that is rejected with an error.
\<close>

datatype ending = Returned | Thrown string | Rejected string

text \<open>
  A forward or rollback operation runs against the whole database. It gives how the
  call ended and the database as the call left it: an exception rolls nothing back.
  The statements of \<^verbatim>\<open>bun:sqlite\<close> are synchronous, so what an operation does to the
  database it has done when the call returns.
\<close>

type_synonym 's operation = "'s database \<Rightarrow> ending \<times> 's database"

text \<open>
  The module \<^verbatim>\<open>await import(migration.path)\<close> loads: an export is \<open>None\<close> when it is
  not a function.
\<close>

record 's migration_module =
  up :: "'s operation option"
  down :: "'s operation option"

text \<open>What the body of the \<^verbatim>\<open>try\<close> did: it threw, or it ran through.\<close>

datatype 's attempt = Threw string "'s database" | Completed "'s database"

text \<open>
  The forward operation of a unit: the import (\<open>Inl\<close> the message when it fails), the
  check that \<^verbatim>\<open>up\<close> is a function, and the call \<^verbatim>\<open>migrationModule.up(db)\<close>. The
  call is a statement of its own, without \<^verbatim>\<open>await\<close>: what it returns is dropped, so a
  promise that is rejected does not reach the \<^verbatim>\<open>catch\<close>.
\<close>

definition forward :: "(string \<Rightarrow> string + 's migration_module) \<Rightarrow> migration \<Rightarrow> 's database \<Rightarrow> 's attempt" where
  "forward importModule m d =
     (case importModule (m_path m) of
        Inl msg \<Rightarrow> Threw msg d
      | Inr migrationModule \<Rightarrow>
          (case up migrationModule of
             None \<Rightarrow> Threw (''Migration '' @ m_id m @ '' does not export an up() function'') d
           | Some f \<Rightarrow>
               (case f d of
                  (Thrown msg, d') \<Rightarrow> Threw msg d'
                | (Returned, d') \<Rightarrow> Completed d'
                | (Rejected msg, d') \<Rightarrow> Completed d')))"

text \<open>
  The body of the \<^verbatim>\<open>try\<close>: the forward operation, then the ledger entry unless the
  unit was already applied when the run started. \<open>now\<close> is
  \<^verbatim>\<open>new Date().toISOString()\<close> at the insert.
\<close>

definition apply_migration :: "(string \<Rightarrow> string + 's migration_module) \<Rightarrow> string \<Rightarrow> migration \<Rightarrow> 's database \<Rightarrow> 's attempt" where
  "apply_migration importModule now m d =
     (case forward importModule m d of
        Threw msg d' \<Rightarrow> Threw msg d'
      | Completed d' \<Rightarrow>
          if \<not> m_applied m
          then (case insert_migration d' \<lparr>row_id = m_id m, row_name = m_name m, executed_at = now\<rparr> of
                  Inl msg \<Rightarrow> Threw msg d'
                | Inr d'' \<Rightarrow> Completed d'')
          else Completed d')"

subsection \<open>The run\<close>

text \<open>
  The state of a run: the database; the units whose loop body was entered
  (\<^verbatim>\<open>Applying migration: ...\<close>) and those whose body ran through
  (\<^verbatim>\<open>Migration applied successfully: ...\<close>), in the order of the messages; the id
  and message of \<^verbatim>\<open>Error applying migration ...\<close>; and the code of
  \<^verbatim>\<open>process.exit\<close> once it was called.
\<close>

record 's run =
  run_db :: "'s database"
  attempted :: "migration list"
  applied :: "migration list"
  failure :: "(string \<times> string) option"
  exit_code :: "nat option"

text \<open>
  The loop \<^verbatim>\<open>for (const migration of migrationsToRun)\<close>. The \<^verbatim>\<open>catch\<close> exits the
  process, so the units after a failing one are not reached. \<open>now k\<close> is the time the
  clock gives in the iteration that follows \<open>k\<close> others.
\<close>

fun run_migrations :: "(string \<Rightarrow> string + 's migration_module) \<Rightarrow> (nat \<Rightarrow> string) \<Rightarrow> migration list \<Rightarrow> 's run \<Rightarrow> 's run" where
  "run_migrations importModule now [] st = st"
| "run_migrations importModule now (m # ms) st =
     (let st' = st\<lparr>attempted := attempted st @ [m]\<rparr> in
      case apply_migration importModule (now (length (attempted st))) m (run_db st) of
        Threw msg d \<Rightarrow> st'\<lparr>run_db := d, failure := Some (m_id m, msg), exit_code := Some 1\<rparr>
      | Completed d \<Rightarrow>
          run_migrations importModule now ms (st'\<lparr>run_db := d, applied := applied st @ [m]\<rparr>))"

text \<open>
  \<^verbatim>\<open>bolt migrate --run\<close> (\<open>force = False\<close>) and \<^verbatim>\<open>bolt migrate --force\<close>, lines 528
  to 611, on the files \<^verbatim>\<open>listFilesRecursively(migrationsDir)\<close> returned and the
  database \<open>d0\<close>.
\<close>

definition migrate_run :: "(string \<Rightarrow> string \<Rightarrow> int) \<Rightarrow> (string \<Rightarrow> string + 's migration_module) \<Rightarrow> (nat \<Rightarrow> string) \<Rightarrow> bool \<Rightarrow> string list \<Rightarrow> 's database \<Rightarrow> 's run" where
  "migrate_run cmp importModule now force files d0 =
     (let d = create_migrations_table d0;
          appliedIds = select_ids d;
          mfs = migrationFiles cmp appliedIds files;
          migrationsToRun = (if force then mfs else filter (\<lambda>m. \<not> m_applied m) mfs);
          st0 = \<lparr>run_db = d, attempted = [], applied = [], failure = None, exit_code = None\<rparr>
      in if length migrationsToRun = 0 then st0\<lparr>exit_code := Some 0\<rparr>
         else (let st = run_migrations importModule now migrationsToRun st0
               in case exit_code st of
                    None \<Rightarrow> st\<lparr>exit_code := Some 0\<rparr>
                  | Some code \<Rightarrow> st))"

subsection \<open>What the claims assume of the units and of the comparison\<close>

text \<open>
  A comparison a sort can rely on: swapping the arguments swaps the sign, and
  \<open>\<le>\<close> is transitive.
\<close>

definition consistent_comparator :: "(string \<Rightarrow> string \<Rightarrow> int) \<Rightarrow> bool" where
  "consistent_comparator cmp \<longleftrightarrow>
     (\<forall>a b. (cmp a b < 0) = (0 < cmp b a)) \<and>
     (\<forall>a b c. cmp a b \<le> 0 \<longrightarrow> cmp b c \<le> 0 \<longrightarrow> cmp a c \<le> 0)"

text \<open>The rows of the ledger: none while the table does not exist.\<close>

definition ledger :: "'s database \<Rightarrow> ledger_row list" where
  "ledger d = (case migrations d of None \<Rightarrow> [] | Some rows \<Rightarrow> rows)"

text \<open>The ids of the units a run discovers among \<open>files\<close>, in the order of \<open>files\<close>.\<close>

definition discovered_ids :: "string list \<Rightarrow> string list" where
  "discovered_ids files = map (\<lambda>file. m_id (to_migration [] file)) (filter (\<lambda>file. endsWith file ''.ts'') files)"

text \<open>No two discovered units have ids that compare equal: sorted, they strictly increase.\<close>

definition no_equal_ids :: "(string \<Rightarrow> string \<Rightarrow> int) \<Rightarrow> string list \<Rightarrow> bool" where
  "no_equal_ids cmp files = sorted_wrt (\<lambda>a b. cmp a b \<noteq> 0) (discovered_ids files)"




text \<open>
  Starting from the schema and data \<open>t\<close>, the forward operations of the units \<open>ms\<close>, run
  in this order, each run through without throwing and leave the table \<^verbatim>\<open>migrations\<close>
  as it is, whatever the table holds.
\<close>

fun forwards_succeed :: "(string \<Rightarrow> string + 's migration_module) \<Rightarrow> migration list \<Rightarrow> 's \<Rightarrow> bool" where
  "forwards_succeed importModule [] t = True"
| "forwards_succeed importModule (m # ms) t =
     (\<forall>d. tables d = t \<longrightarrow>
        (case forward importModule m d of
           Threw msg d' \<Rightarrow> False
         | Completed d' \<Rightarrow> migrations d' = migrations d \<and> forwards_succeed importModule ms (tables d')))"

text \<open>
  Starting from \<open>t\<close>, the forward operations of \<open>ms\<close> succeed as above and then the
  forward operation of \<open>m\<close> throws, leaving the table \<^verbatim>\<open>migrations\<close> as it is.
\<close>

fun forward_fails_after :: "(string \<Rightarrow> string + 's migration_module) \<Rightarrow> migration list \<Rightarrow> migration \<Rightarrow> 's \<Rightarrow> bool" where
  "forward_fails_after importModule [] m t =
     (\<forall>d. tables d = t \<longrightarrow>
        (case forward importModule m d of
           Threw msg d' \<Rightarrow> migrations d' = migrations d
         | Completed d' \<Rightarrow> False))"
| "forward_fails_after importModule (p # ps) m t =
     (\<forall>d. tables d = t \<longrightarrow>
        (case forward importModule p d of
           Threw msg d' \<Rightarrow> False
         | Completed d' \<Rightarrow> migrations d' = migrations d \<and> forward_fails_after importModule ps m (tables d')))"

subsection \<open>Creating a unit (\<^verbatim>\<open>bolt migrate --create\<close>)\<close>

text \<open>
  A reading of the clock in UTC, each field in its digits, and the text
  \<^verbatim>\<open>new Date().toISOString()\<close> gives for it: \<^verbatim>\<open>YYYY-MM-DDTHH:mm:ss.sssZ\<close>.
\<close>

record utc_time =
  year :: string
  month :: string
  day :: string
  hour :: string
  minute :: string
  second :: string
  millisecond :: string

definition toISOString :: "utc_time \<Rightarrow> string" where
  "toISOString t =
     year t @ ''-'' @ month t @ ''-'' @ day t @ ''T'' @ hour t @ '':'' @ minute t @ '':'' @
     second t @ ''.'' @ millisecond t @ ''Z''"

text \<open>The fields have 4, 2, 2, 2, 2, 2 and 3 decimal digits.\<close>

definition digits :: "nat \<Rightarrow> string \<Rightarrow> bool" where
  "digits n s = (length s = n \<and> list_all (\<lambda>c. c \<in> set ''0123456789'') s)"

definition well_formed :: "utc_time \<Rightarrow> bool" where
  "well_formed t =
     (digits 4 (year t) \<and> digits 2 (month t) \<and> digits 2 (day t) \<and> digits 2 (hour t) \<and>
      digits 2 (minute t) \<and> digits 2 (second t) \<and> digits 3 (millisecond t))"

text \<open>\<^verbatim>\<open>s.replace(/[-:T.Z]/g, '').slice(0, 14)\<close>.\<close>

definition timestamp_token :: "string \<Rightarrow> string" where
  "timestamp_token s = take 14 (filter (\<lambda>c. c \<notin> set ''-:T.Z'') s)"

text \<open>
  The white space of a regular expression (\<^verbatim>\<open>\s\<close>), each character in its UTF-8
  bytes: U+0009 to U+000D, U+0020, U+00A0, U+1680, U+2000 to U+200A, U+2028, U+2029,
  U+202F, U+205F, U+3000 and U+FEFF. No encoding is the start of another, so a string
  starts with at most one of them.
\<close>

definition white_space :: "string list" where
  "white_space =
     [[CHR 0x09], [CHR 0x0A], [CHR 0x0B], [CHR 0x0C], [CHR 0x0D], [CHR 0x20],
      [CHR 0xC2, CHR 0xA0],
      [CHR 0xE1, CHR 0x9A, CHR 0x80],
      [CHR 0xE2, CHR 0x80, CHR 0x80], [CHR 0xE2, CHR 0x80, CHR 0x81], [CHR 0xE2, CHR 0x80, CHR 0x82],
      [CHR 0xE2, CHR 0x80, CHR 0x83], [CHR 0xE2, CHR 0x80, CHR 0x84], [CHR 0xE2, CHR 0x80, CHR 0x85],
      [CHR 0xE2, CHR 0x80, CHR 0x86], [CHR 0xE2, CHR 0x80, CHR 0x87], [CHR 0xE2, CHR 0x80, CHR 0x88],
      [CHR 0xE2, CHR 0x80, CHR 0x89], [CHR 0xE2, CHR 0x80, CHR 0x8A],
      [CHR 0xE2, CHR 0x80, CHR 0xA8], [CHR 0xE2, CHR 0x80, CHR 0xA9], [CHR 0xE2, CHR 0x80, CHR 0xAF],
      [CHR 0xE2, CHR 0x81, CHR 0x9F],
      [CHR 0xE3, CHR 0x80, CHR 0x80],
      [CHR 0xEF, CHR 0xBB, CHR 0xBF]]"

text \<open>The white-space character a string starts with, if it starts with one.\<close>

definition space_at :: "string \<Rightarrow> string option" where
  "space_at s = find (\<lambda>w. startsWith s w) white_space"

text \<open>
  \<^verbatim>\<open>name.replace(/\s+/g, '_')\<close>: every maximal run of white space becomes one
  underscore. \<open>in_run\<close> says that the character before was white space, and \<open>skip\<close>
  counts the bytes still to pass of a white-space character that has been seen.
\<close>

fun replace_spaces :: "bool \<Rightarrow> nat \<Rightarrow> string \<Rightarrow> string" where
  "replace_spaces in_run skip [] = []"
| "replace_spaces in_run (Suc skip) (c # cs) = replace_spaces in_run skip cs"
| "replace_spaces in_run 0 (c # cs) =
     (case space_at (c # cs) of
        Some w \<Rightarrow>
          (if in_run then replace_spaces True (length w - 1) cs
           else CHR ''_'' # replace_spaces True (length w - 1) cs)
      | None \<Rightarrow> c # replace_spaces False 0 cs)"

definition slugify :: "string \<Rightarrow> string" where
  "slugify name = replace_spaces False 0 name"

text \<open>
  \<^verbatim>\<open>bolt migrate --create name\<close> with no other option. \<open>dir_ready\<close> says that the
  migrations directory is there or that \<^verbatim>\<open>mkdir\<close> makes it (lines 438 to 448; the
  command exits with code 1 when it cannot). The branch \<^verbatim>\<open>if (options.create)\<close> is
  taken for a name that is not empty: it gives the name and the path of the new file,
  what \<^verbatim>\<open>Bun.write\<close> puts there (the template of lines 456 to 476, which holds the
  name as given and a second reading of the clock), and exits with code 0; a file that
  was at the path is overwritten. The empty name is falsy: no branch is taken, nothing
  is written, and the command ends at \<^verbatim>\<open>No action specified\<close> with code 1 (lines 614
  to 617). \<open>join\<close> is \<^verbatim>\<open>path.join\<close>.
\<close>

datatype file_content = MigrationTemplate string string

record created =
  migrationName :: "string option"
  migrationPath :: "string option"
  files_after :: "string \<Rightarrow> file_content option"
  create_exit :: nat

definition migrate_create ::
  "(string \<Rightarrow> string \<Rightarrow> string) \<Rightarrow> string \<Rightarrow> bool \<Rightarrow> (string \<Rightarrow> file_content option) \<Rightarrow>
   utc_time \<Rightarrow> utc_time \<Rightarrow> string \<Rightarrow> created" where
  "migrate_create join migrationsDir dir_ready files_before t generated name =
     (if \<not> dir_ready
      then \<lparr>migrationName = None, migrationPath = None, files_after = files_before, create_exit = 1\<rparr>
      else if name \<noteq> []
      then (let timestamp = timestamp_token (toISOString t);
                migrationName = timestamp @ ''_'' @ slugify name;
                migrationPath = join migrationsDir (migrationName @ ''.ts'');
                migrationTemplate = MigrationTemplate name (toISOString generated)
            in \<lparr>migrationName = Some migrationName, migrationPath = Some migrationPath,
                files_after = files_before(migrationPath \<mapsto> migrationTemplate),
                create_exit = 0\<rparr>)
      else \<lparr>migrationName = None, migrationPath = None, files_after = files_before, create_exit = 1\<rparr>)"

text \<open>An example: two readings of the clock in one second, and a directory.\<close>

definition example_time :: "string \<Rightarrow> utc_time" where
  "example_time ms =
     \<lparr>year = ''2024'', month = ''03'', day = ''05'', hour = ''10'', minute = ''20'',
      second = ''30'', millisecond = ms\<rparr>"

definition example_join :: "string \<Rightarrow> string \<Rightarrow> string" where
  "example_join dir file = dir @ ''/'' @ file"

subsection \<open>An example project\<close>

text \<open>
  A comparison by code units, which a locale's comparison agrees with on ids made of
  digits; a migrations directory with one file that is not a unit; a database whose
  ledger holds the second of four units; forward operations that count in the one
  number the example's schema is.
\<close>

definition byte_order :: "string \<Rightarrow> string \<Rightarrow> int" where
  "byte_order a b = (if a = b then 0 else if a < b then - 1 else 1)"

definition example_files :: "string list" where
  "example_files =
     [''/app/migrations/20240102_add_roles.ts'',
      ''/app/migrations/notes.md'',
      ''/app/migrations/20240103_add_nodes.ts'',
      ''/app/migrations/20240101_create_users.ts'',
      ''/app/migrations/20231231_init.ts'']"

definition example_db :: "nat database" where
  "example_db =
     \<lparr>migrations = Some [\<lparr>row_id = ''20240101'', row_name = ''create_users'',
                            executed_at = ''2024-01-01T09:00:00.000Z''\<rparr>],
      tables = 1\<rparr>"

definition example_up :: "nat operation" where
  "example_up d = (Returned, d\<lparr>tables := Suc (tables d)\<rparr>)"

definition example_throw :: "nat operation" where
  "example_throw d = (Thrown ''near line 1: syntax error'', d)"

definition example_import :: "string \<Rightarrow> string + nat migration_module" where
  "example_import file = Inr \<lparr>up = Some example_up, down = None\<rparr>"

definition example_import_broken :: "string \<Rightarrow> string + nat migration_module" where
  "example_import_broken file =
     (if file = ''/app/migrations/20240102_add_roles.ts''
      then Inr \<lparr>up = Some example_throw, down = None\<rparr>
      else Inr \<lparr>up = Some example_up, down = None\<rparr>)"

text \<open>
  The same project where the forward operation of the unit \<^verbatim>\<open>20240102\<close> is
  \<^verbatim>\<open>export async function up(db) { throw new Error('no such table: roles') }\<close>.
\<close>

definition example_reject :: "nat operation" where
  "example_reject d = (Rejected ''no such table: roles'', d)"

definition example_import_async :: "string \<Rightarrow> string + nat migration_module" where
  "example_import_async file =
     (if file = ''/app/migrations/20240102_add_roles.ts''
      then Inr \<lparr>up = Some example_reject, down = None\<rparr>
      else Inr \<lparr>up = Some example_up, down = None\<rparr>)"

definition example_clock :: "nat \<Rightarrow> string" where
  "example_clock k = ''2024-02-01T12:00:00.000Z''"

section \<open>The deployment server (\<^verbatim>\<open>deploy\<close>)\<close>

subsection \<open>Requests and responses\<close>

text \<open>
  A value of JavaScript where the command reads a port: a command-line option is a
  string, a field of the saved configuration a number or a string, and
  \<open>Undefined\<close> is a missing one. \<open>truthy\<close> is the test of \<^verbatim>\<open>||\<close> and \<^verbatim>\<open>if\<close>.
\<close>

datatype js = Undefined | Str string | Num nat

fun truthy :: "js \<Rightarrow> bool" where
  "truthy Undefined = False"
| "truthy (Str s) = (s \<noteq> [])"
| "truthy (Num n) = (n \<noteq> 0)"

definition js_or :: "js \<Rightarrow> js \<Rightarrow> js" where
  "js_or a b = (if truthy a then a else b)"

text \<open>The same for a string that may be missing.\<close>

definition truthy_string :: "string option \<Rightarrow> bool" where
  "truthy_string s = (case s of None \<Rightarrow> False | Some v \<Rightarrow> v \<noteq> [])"

definition string_or :: "string option \<Rightarrow> string option \<Rightarrow> string option" where
  "string_or a b = (if truthy_string a then a else b)"

text \<open>The string where there is one, and \<open>d\<close> where there is none.\<close>

definition the_default :: "string \<Rightarrow> string option \<Rightarrow> string" where
  "the_default d s = (case s of None \<Rightarrow> d | Some v \<Rightarrow> v)"

text \<open>
  A body: none (\<^verbatim>\<open>null\<close>), bytes, or the file \<^verbatim>\<open>Bun.file(path)\<close> names, which is
  read when the response is sent.
\<close>

datatype body = NoBody | Bytes string | BunFile string

text \<open>
  A parsed URL (\<^verbatim>\<open>new URL(req.url)\<close>): \<open>searchParams\<close> are the query parameters in
  their order, a key as often as it occurs.
\<close>

record url =
  protocol :: string
  hostname :: string
  port :: js
  pathname :: string
  searchParams :: "(string \<times> string) list"

record request =
  req_method :: string
  req_url :: url
  req_headers :: "(string \<times> string) list"
  req_body :: body

record response =
  status :: nat
  statusText :: string
  res_headers :: "(string \<times> string) list"
  res_body :: body

text \<open>
  The call \<^verbatim>\<open>fetch(apiUrl, { method, headers, body })\<close>, and the runtime's \<^verbatim>\<open>fetch\<close>
  with the backend behind it: \<open>Inr\<close> the response it resolves with, \<open>Inl\<close> the message
  of the error it rejects with (connection refused, timeout).
\<close>

record api_call =
  call_url :: url
  call_method :: string
  call_headers :: "(string \<times> string) list"
  call_body :: body

type_synonym backend = "api_call \<Rightarrow> string + response"

text \<open>
  The static root as \<^verbatim>\<open>existsSync\<close> and \<^verbatim>\<open>statSync\<close> see it: what is at a path, if
  anything.
\<close>

datatype node = RegularFile string | Directory

definition existsSync :: "(string \<Rightarrow> node option) \<Rightarrow> string \<Rightarrow> bool" where
  "existsSync fs p = (fs p \<noteq> None)"

definition isFile :: "(string \<Rightarrow> node option) \<Rightarrow> string \<Rightarrow> bool" where
  "isFile fs p = (case fs p of Some (RegularFile content) \<Rightarrow> True | Some Directory \<Rightarrow> False | None \<Rightarrow> False)"

text \<open>
  The bytes that go out for a body: those of the file for \<^verbatim>\<open>Bun.file(path)\<close>, and
  \<open>None\<close> when there is no regular file at the path to read.
\<close>

definition sent_bytes :: "(string \<Rightarrow> node option) \<Rightarrow> body \<Rightarrow> string option" where
  "sent_bytes fs b =
     (case b of
        NoBody \<Rightarrow> Some []
      | Bytes content \<Rightarrow> Some content
      | BunFile p \<Rightarrow>
          (case fs p of
             Some (RegularFile content) \<Rightarrow> Some content
           | Some Directory \<Rightarrow> None
           | None \<Rightarrow> None))"

text \<open>\<^verbatim>\<open>new Response(Bun.file(path))\<close>: status 200, no headers given.\<close>

definition file_response :: "string \<Rightarrow> response" where
  "file_response p = \<lparr>status = 200, statusText = [], res_headers = [], res_body = BunFile p\<rparr>"

subsection \<open>The handler of a listener\<close>

text \<open>
  \<^verbatim>\<open>url.searchParams.forEach((value, key) => apiUrl.searchParams.append(key, value))\<close>.
\<close>

definition copy_search_params :: "(string \<times> string) list \<Rightarrow> url \<Rightarrow> url" where
  "copy_search_params params apiUrl =
     foldl (\<lambda>u (key, val). u\<lparr>searchParams := searchParams u @ [(key, val)]\<rparr>) apiUrl params"

text \<open>
  The call a handler makes for an API request: \<^verbatim>\<open>new URL(path, `http://localhost:${apiPort}`)\<close>,
  the query parameters of the request copied onto it, and the method, headers and body
  of the request.
\<close>

definition proxy_call :: "js \<Rightarrow> request \<Rightarrow> api_call" where
  "proxy_call apiPort req =
     (let u = req_url req;
          path = pathname u;
          apiUrl = copy_search_params (searchParams u)
             \<lparr>protocol = ''http:'', hostname = ''localhost'', port = apiPort,
              pathname = path, searchParams = []\<rparr>
      in \<lparr>call_url = apiUrl, call_method = req_method req,
          call_headers = req_headers req, call_body = req_body req\<rparr>)"

text \<open>
  What a handler did with a request: the response it returned, and the call it made to
  the backend, if it made one.
\<close>

record handled =
  returned :: response
  forwarded :: "api_call option"

text \<open>
  The function \<^verbatim>\<open>fetch(req)\<close> of the local web server (lines 1019 to 1076), which
  the HTTPS server (lines 1106 to 1163) and the HTTP server of \<^verbatim>\<open>setupHttpServer\<close>
  (lines 1200 to 1257) repeat statement by statement. \<open>apiPort\<close> and \<open>distDir\<close> are
  the variables of the command it closes over, \<open>join\<close> is \<^verbatim>\<open>path.join\<close>. The response
  \<^verbatim>\<open>fetch\<close> resolves with is passed on as \<^verbatim>\<open>new Response(apiResponse.body, { status,
  statusText, headers })\<close> builds it.
\<close>

definition fetch_handler ::
  "js \<Rightarrow> (string \<Rightarrow> string \<Rightarrow> string) \<Rightarrow> string \<Rightarrow> (string \<Rightarrow> node option) \<Rightarrow> backend \<Rightarrow>
   request \<Rightarrow> handled" where
  "fetch_handler apiPort join distDir fs fetch req =
     (let u = req_url req;
          path = pathname u
      in if startsWith path ''/api/''
         then (let call = proxy_call apiPort req
               in case fetch call of
                    Inr apiResponse \<Rightarrow>
                      \<lparr>returned = \<lparr>status = status apiResponse, statusText = statusText apiResponse,
                                   res_headers = res_headers apiResponse,
                                   res_body = res_body apiResponse\<rparr>,
                       forwarded = Some call\<rparr>
                  | Inl message \<Rightarrow>
                      \<lparr>returned = \<lparr>status = 502, statusText = [], res_headers = [],
                                   res_body = Bytes (''API server error: '' @ message)\<rparr>,
                       forwarded = Some call\<rparr>)
         else (let filePath = (if path = ''/'' \<or> (\<not> includes_char path CHR ''.'' \<and> \<not> endsWith path ''/'')
                               then ''/index.html'' else path);
                   fullPath = join distDir filePath
               in if existsSync fs fullPath \<and> isFile fs fullPath
                  then \<lparr>returned = file_response fullPath, forwarded = None\<rparr>
                  else if \<not> includes_char path CHR ''.''
                  then \<lparr>returned = file_response (join distDir ''index.html''), forwarded = None\<rparr>
                  else \<lparr>returned = \<lparr>status = 404, statusText = [], res_headers = [],
                                     res_body = Bytes ''Not Found''\<rparr>,
                        forwarded = None\<rparr>))"

text \<open>
  The function \<^verbatim>\<open>fetch(req)\<close> of the listener on port 80 beside the HTTPS server
  (lines 1169 to 1180): a redirect to the same URL under \<^verbatim>\<open>https:\<close> and port 443.
  \<open>href\<close> is \<^verbatim>\<open>url.toString()\<close>.
\<close>

definition redirect_handler :: "(url \<Rightarrow> string) \<Rightarrow> request \<Rightarrow> handled" where
  "redirect_handler href req =
     (let u = (req_url req)\<lparr>protocol := ''https:'', port := Str ''443''\<rparr>
      in \<lparr>returned = \<lparr>status = 301, statusText = [], res_headers = [(''Location'', href u)],
                      res_body = NoBody\<rparr>,
          forwarded = None\<rparr>)"

text \<open>The listeners a deployment opens, and the handler of each.\<close>

datatype listener_kind = LocalWeb | HttpsWeb | HttpWeb | HttpRedirect

definition listener_fetch ::
  "listener_kind \<Rightarrow> js \<Rightarrow> (string \<Rightarrow> string \<Rightarrow> string) \<Rightarrow> string \<Rightarrow> (string \<Rightarrow> node option) \<Rightarrow>
   (url \<Rightarrow> string) \<Rightarrow> backend \<Rightarrow> request \<Rightarrow> handled" where
  "listener_fetch kind apiPort join distDir fs href fetch req =
     (case kind of
        LocalWeb \<Rightarrow> fetch_handler apiPort join distDir fs fetch req
      | HttpsWeb \<Rightarrow> fetch_handler apiPort join distDir fs fetch req
      | HttpWeb \<Rightarrow> fetch_handler apiPort join distDir fs fetch req
      | HttpRedirect \<Rightarrow> redirect_handler href req)"

subsection \<open>The backend behind \<^verbatim>\<open>fetch\<close>\<close>

text \<open>
  What the server at the URL of a call answers to that one HTTP request: \<open>Inr\<close> its
  response as it sent it, \<open>Inl\<close> the message of the network error when there is none
  (connection refused, timeout).
\<close>

type_synonym http_server = "api_call \<Rightarrow> string + response"

text \<open>
  \<^verbatim>\<open>headers.get(name)\<close>: the names of headers are compared without regard to the case
  of ASCII letters.
\<close>

definition ascii_lower :: "char \<Rightarrow> char" where
  "ascii_lower c =
     (if CHR ''A'' \<le> c \<and> c \<le> CHR ''Z'' then char_of (of_char c + (32 :: nat)) else c)"

definition header_value :: "string \<Rightarrow> (string \<times> string) list \<Rightarrow> string option" where
  "header_value name hs =
     map_of (map (\<lambda>(key, val). (map ascii_lower key, val)) hs) (map ascii_lower name)"

text \<open>
  The handlers call \<^verbatim>\<open>fetch(apiUrl, { method, headers, body })\<close>: they give no
  \<^verbatim>\<open>redirect\<close> option, so the mode of the Fetch standard is \<^verbatim>\<open>follow\<close>. A response with
  a redirect status and a \<^verbatim>\<open>Location\<close> header is then not what \<^verbatim>\<open>fetch\<close> resolves with:
  the request that the standard derives from it is sent, at most twenty times in a row.
  \<open>next_call\<close> is that derivation (the URL the header resolves to, the method and the
  headers of the new request), \<open>Inl\<close> where the standard gives a network error.
\<close>

definition redirects :: "response \<Rightarrow> bool" where
  "redirects r =
     (status r \<in> {301, 302, 303, 307, 308} \<and> header_value ''location'' (res_headers r) \<noteq> None)"

fun follow ::
  "nat \<Rightarrow> (api_call \<Rightarrow> response \<Rightarrow> string + api_call) \<Rightarrow> http_server \<Rightarrow> api_call \<Rightarrow>
   string + response" where
  "follow 0 next_call server call = Inl ''redirect count exceeded''"
| "follow (Suc n) next_call server call =
     (case server call of
        Inl message \<Rightarrow> Inl message
      | Inr r \<Rightarrow>
          if redirects r
          then (case next_call call r of
                  Inl message \<Rightarrow> Inl message
                | Inr call' \<Rightarrow> follow n next_call server call')
          else Inr r)"

text \<open>
  The handlers do not switch decompression off either: a body that came with a
  \<^verbatim>\<open>Content-Encoding\<close> is handed on decoded, under the headers the server sent.
  \<open>decode\<close> is the decoder of a coding.
\<close>

definition decoded :: "(string \<Rightarrow> body \<Rightarrow> body) \<Rightarrow> response \<Rightarrow> response" where
  "decoded decode r =
     (case header_value ''content-encoding'' (res_headers r) of
        None \<Rightarrow> r
      | Some coding \<Rightarrow> r\<lparr>res_body := decode coding (res_body r)\<rparr>)"

text \<open>
  The runtime's \<^verbatim>\<open>fetch\<close> as the handlers call it, in front of a server: the first
  request and up to twenty redirects, then the decoding.
\<close>

definition runtime_fetch ::
  "(api_call \<Rightarrow> response \<Rightarrow> string + api_call) \<Rightarrow> (string \<Rightarrow> body \<Rightarrow> body) \<Rightarrow> http_server \<Rightarrow> backend" where
  "runtime_fetch next_call decode server call =
     (case follow 21 next_call server call of
        Inl message \<Rightarrow> Inl message
      | Inr r \<Rightarrow> Inr (decoded decode r))"

subsection \<open>A listener over time\<close>


record server =
  exited :: "nat option"
  api_killed :: bool
  answers :: "response list"



subsection \<open>An example deployment\<close>

text \<open>
  A static root with the page of the application and one asset, a backend that answers
  and one that refuses the connection, and requests to them.
\<close>

definition example_dist :: "string \<Rightarrow> node option" where
  "example_dist p =
     (if p = ''/app/_dist/index.html'' then Some (RegularFile ''<html>Argon</html>'')
      else if p = ''/app/_dist/assets'' then Some Directory
      else if p = ''/app/_dist/assets/app.js'' then Some (RegularFile ''console.log(1)'')
      else None)"

text \<open>\<^verbatim>\<open>path.join\<close> on a directory and a path under it that may start with a slash.\<close>

definition example_path_join :: "string \<Rightarrow> string \<Rightarrow> string" where
  "example_path_join dir p = (if startsWith p ''/'' then dir @ p else dir @ ''/'' @ p)"

definition example_get :: "string \<Rightarrow> (string \<times> string) list \<Rightarrow> request" where
  "example_get path params =
     \<lparr>req_method = ''GET'',
      req_url = \<lparr>protocol = ''http:'', hostname = ''localhost'', port = Str ''3001'',
                 pathname = path, searchParams = params\<rparr>,
      req_headers = [(''accept'', ''application/json'')],
      req_body = NoBody\<rparr>"

definition example_backend :: backend where
  "example_backend call =
     Inr \<lparr>status = 201, statusText = ''Created'', res_headers = [(''content-type'', ''application/json'')],
          res_body = Bytes ''created''\<rparr>"


definition example_href :: "url \<Rightarrow> string" where
  "example_href u = protocol u @ ''//'' @ hostname u @ pathname u"



text \<open>
  A backend that has moved \<^verbatim>\<open>/api/old\<close> to \<^verbatim>\<open>/api/new\<close> and says so with a 302; the
  request that follows the redirect of a \<^verbatim>\<open>GET\<close>, to the path in \<^verbatim>\<open>Location\<close>; and a
  decoder that is not needed.
\<close>

definition example_server :: http_server where
  "example_server call =
     (if pathname (call_url call) = ''/api/old''
      then Inr \<lparr>status = 302, statusText = ''Found'', res_headers = [(''Location'', ''/api/new'')],
                res_body = NoBody\<rparr>
      else Inr \<lparr>status = 200, statusText = ''OK'', res_headers = [(''content-type'', ''text/plain'')],
                res_body = Bytes ''moved here''\<rparr>)"

definition example_next_call :: "api_call \<Rightarrow> response \<Rightarrow> string + api_call" where
  "example_next_call call r =
     (case header_value ''location'' (res_headers r) of
        None \<Rightarrow> Inl ''no location''
      | Some location \<Rightarrow> Inr (call\<lparr>call_url := (call_url call)\<lparr>pathname := location\<rparr>\<rparr>))"

definition example_decode :: "string \<Rightarrow> body \<Rightarrow> body" where
  "example_decode coding b = b"

subsection \<open>The command \<^verbatim>\<open>deploy\<close>\<close>

text \<open>
  The options of the command line (a value is \<open>None\<close> when the option is not given),
  and the saved configuration as \<^verbatim>\<open>JSON.parse\<close> returns it.
\<close>

record deploy_options =
  opt_force :: bool
  opt_local :: bool
  opt_domain :: "string option"
  opt_sslPath :: "string option"
  opt_port :: "string option"
  opt_webPort :: "string option"
  opt_config :: "string option"

record deploy_config =
  cfg_port :: js
  cfg_webPort :: js
  cfg_domain :: "string option"
  cfg_sslPath :: "string option"
  cfg_uiPath :: "string option"

definition no_config :: deploy_config where
  "no_config = \<lparr>cfg_port = Undefined, cfg_webPort = Undefined, cfg_domain = None,
                 cfg_sslPath = None, cfg_uiPath = None\<rparr>"

datatype deployment_type = Local | Domain

text \<open>
  The answers of the operator to the questions of \<^verbatim>\<open>inquirer\<close>; an answer is read
  only where its question is asked.
\<close>

record prompts =
  confirm :: bool
  customPath :: string
  deployment :: deployment_type
  domainAnswer :: string
  sslConfirm :: bool
  sslPathAnswer :: string
  saveConfigConfirm :: bool

text \<open>
  What the command finds outside itself: the file system before the build
  (\<open>exists_at\<close>), \<^verbatim>\<open>path.join\<close>, the project root and where \<^verbatim>\<open>argon-ui\<close> is
  expected, the saved configuration a path holds (\<open>None\<close> when reading or parsing
  throws), the exit status of \<^verbatim>\<open>bun install\<close> and of \<^verbatim>\<open>bun run build\<close>, whether the
  writes, the removal and the copies succeed, the text \<^verbatim>\<open>readFileSync\<close> returns (\<open>None\<close>
  when it throws), and the ports \<^verbatim>\<open>Bun.serve\<close> can listen on.
\<close>

record world =
  exists_at :: "string \<Rightarrow> bool"
  path_join :: "string \<Rightarrow> string \<Rightarrow> string"
  project_root :: string
  expectedUIPath :: string
  config_file :: "string \<Rightarrow> deploy_config option"
  install_status :: int
  env_written :: bool
  build_status :: int
  dist_exists :: bool
  rm_ok :: bool
  mkdir_ok :: bool
  ui_dist_built :: bool
  copy_ok :: bool
  save_ok :: bool
  read_file :: "string \<Rightarrow> string option"
  can_listen :: "js \<Rightarrow> bool"

text \<open>
  How the command ends: \<^verbatim>\<open>process.exit(code)\<close>, an exception nothing catches, or the
  wait on a promise that never resolves, with the listeners serving. A listener has its
  handler, its port and, under TLS, its key and certificate.
\<close>

datatype outcome = Exit nat | Uncaught | Running

record listener =
  l_kind :: listener_kind
  l_port :: js
  l_tls :: "(string \<times> string) option"

record deployed =
  ended :: outcome
  listeners :: "listener list"
  api_spawned :: bool

text \<open>Lines 727 to 739: the saved configuration, \<open>no_config\<close> for \<^verbatim>\<open>{}\<close>.\<close>

definition load_config :: "world \<Rightarrow> deploy_options \<Rightarrow> deploy_config" where
  "load_config w options =
     (let configDir = path_join w (project_root w) ''src/cli'';
          defaultConfigPath = path_join w configDir ''deploy.json'';
          configPath = (if truthy_string (opt_config options) then the_default defaultConfigPath (opt_config options)
                        else defaultConfigPath)
      in if exists_at w configPath
         then (case config_file w configPath of Some c \<Rightarrow> c | None \<Rightarrow> no_config)
         else no_config)"

text \<open>
  Lines 742 to 745, \<^verbatim>\<open>options = { ...config, ...options }\<close>: a key of the command line
  wins over the key of the configuration.
\<close>

definition merged_domain :: "deploy_config \<Rightarrow> deploy_options \<Rightarrow> string option" where
  "merged_domain c options = (case opt_domain options of Some d \<Rightarrow> Some d | None \<Rightarrow> cfg_domain c)"

definition merged_sslPath :: "deploy_config \<Rightarrow> deploy_options \<Rightarrow> string option" where
  "merged_sslPath c options = (case opt_sslPath options of Some p \<Rightarrow> Some p | None \<Rightarrow> cfg_sslPath c)"

definition merged_webPort :: "deploy_config \<Rightarrow> deploy_options \<Rightarrow> js" where
  "merged_webPort c options = (case opt_webPort options of Some p \<Rightarrow> Str p | None \<Rightarrow> cfg_webPort c)"

text \<open>Lines 798 to 814: the deployment type, \<open>None\<close> for \<^verbatim>\<open>null\<close>.\<close>

definition deploymentType :: "deploy_config \<Rightarrow> prompts \<Rightarrow> deploy_options \<Rightarrow> deployment_type option" where
  "deploymentType c replies options =
     (let chosen = (if opt_local options then Some Local
                    else if truthy_string (merged_domain c options) then Some Domain
                    else None)
      in if chosen = None \<and> \<not> opt_force options then Some (deployment replies) else chosen)"

text \<open>
  Lines 845 to 893, the certificate path of a deployment that is not local: \<open>Inl\<close> the
  code of \<^verbatim>\<open>process.exit\<close>, \<open>Inr\<close> the value of the variable \<^verbatim>\<open>sslPath\<close>. The files are
  looked for when the path comes from the command line or the saved configuration; a
  path the operator types at the question is taken as it is.
\<close>

definition resolve_sslPath :: "world \<Rightarrow> deploy_config \<Rightarrow> prompts \<Rightarrow> deploy_options \<Rightarrow> nat + string option" where
  "resolve_sslPath w c replies options =
     (let hasSSL = string_or (merged_sslPath c options) (cfg_sslPath c)
      in if \<not> truthy_string hasSSL \<and> \<not> opt_force options
         then (if sslConfirm replies then Inr (Some (sslPathAnswer replies)) else Inr None)
         else (case hasSSL of
                 None \<Rightarrow> Inr None
               | Some sslPath \<Rightarrow>
                   if sslPath = [] then Inr (Some sslPath)
                   else if \<not> exists_at w sslPath then Inl 1
                   else (let hasKey = exists_at w (path_join w sslPath ''privkey.pem'');
                             hasCert = exists_at w (path_join w sslPath ''fullchain.pem'')
                         in if \<not> hasKey \<or> \<not> hasCert then Inl 1 else Inr (Some sslPath))))"

text \<open>
  The function \<^verbatim>\<open>setupHttpServer\<close>: one more listener on port 80, beside those open
  already.
\<close>

definition setupHttpServer :: "world \<Rightarrow> listener list \<Rightarrow> deployed" where
  "setupHttpServer w opened =
     (if can_listen w (Num 80)
      then \<lparr>ended = Running,
            listeners = opened @ [\<lparr>l_kind = HttpWeb, l_port = Num 80, l_tls = None\<rparr>],
            api_spawned = True\<rparr>
      else \<lparr>ended = Uncaught, listeners = opened, api_spawned = True\<rparr>)"

text \<open>
  Lines 1012 to 1265, the listeners: the local web server, or for a deployment that is
  not local the HTTPS server with the redirect beside it, the \<^verbatim>\<open>catch\<close> falling back
  to \<^verbatim>\<open>setupHttpServer\<close>, and \<^verbatim>\<open>setupHttpServer\<close> alone without a certificate path.
\<close>

definition start_servers :: "world \<Rightarrow> deployment_type option \<Rightarrow> js \<Rightarrow> string option \<Rightarrow> deployed" where
  "start_servers w type webPort sslPath =
     (if type = Some Local
      then (if can_listen w webPort
            then \<lparr>ended = Running,
                  listeners = [\<lparr>l_kind = LocalWeb, l_port = webPort, l_tls = None\<rparr>],
                  api_spawned = True\<rparr>
            else \<lparr>ended = Uncaught, listeners = [], api_spawned = True\<rparr>)
      else if truthy_string sslPath
      then (let keyFile = path_join w (the_default [] sslPath) ''privkey.pem'';
                certFile = path_join w (the_default [] sslPath) ''fullchain.pem''
            in case read_file w keyFile of
                 None \<Rightarrow> setupHttpServer w []
               | Some key \<Rightarrow>
                   (case read_file w certFile of
                      None \<Rightarrow> setupHttpServer w []
                    | Some cert \<Rightarrow>
                        if \<not> can_listen w (Num 443) then setupHttpServer w []
                        else (let https = \<lparr>l_kind = HttpsWeb, l_port = Num 443, l_tls = Some (key, cert)\<rparr>
                              in if \<not> can_listen w (Num 80) then setupHttpServer w [https]
                                 else \<lparr>ended = Running,
                                       listeners = [https, \<lparr>l_kind = HttpRedirect, l_port = Num 80, l_tls = None\<rparr>],
                                       api_spawned = True\<rparr>)))
      else setupHttpServer w [])"

text \<open>The command, lines 725 to 1285, up to the wait that keeps the process running.\<close>

definition stopped :: "outcome \<Rightarrow> deployed" where
  "stopped how = \<lparr>ended = how, listeners = [], api_spawned = False\<rparr>"

definition deploy :: "world \<Rightarrow> prompts \<Rightarrow> deploy_options \<Rightarrow> deployed" where
  "deploy w replies options =
     (let c = load_config w options;
          force = opt_force options;
          uiPath = (if \<not> force \<and> \<not> exists_at w (expectedUIPath w)
                    then (if confirm replies then expectedUIPath w else customPath replies)
                    else expectedUIPath w)
      in if \<not> exists_at w uiPath then stopped (Exit 1)
         else if install_status w \<noteq> 0 then stopped (Exit 1)
         else (let type = deploymentType c replies options;
                   webPort = js_or (merged_webPort c options) (js_or (cfg_webPort c) (Num 3001));
                   ssl = (if type = Some Local then Inr None else resolve_sslPath w c replies options)
               in case ssl of
                    Inl code \<Rightarrow> stopped (Exit code)
                  | Inr sslPath \<Rightarrow>
                      if \<not> env_written w then stopped (Exit 1)
                      else if build_status w \<noteq> 0 then stopped (Exit 1)
                      else if dist_exists w \<and> \<not> rm_ok w then stopped Uncaught
                      else if \<not> mkdir_ok w then stopped (Exit 1)
                      else if \<not> ui_dist_built w then stopped (Exit 1)
                      else if \<not> copy_ok w then stopped Uncaught
                      else if (force \<or> saveConfigConfirm replies) \<and> \<not> save_ok w then stopped Uncaught
                      else start_servers w type webPort sslPath))"

text \<open>
  An example: \<^verbatim>\<open>argon-ui\<close> is where it is expected, every step of the build
  succeeds, every port is free, and the certificate directory holds the certificate
  chain but no private key.
\<close>

definition example_world :: world where
  "example_world =
     \<lparr>exists_at = (\<lambda>p. p = ''/srv/argon-ui'' \<or> p = ''/etc/letsencrypt/live/panel'' \<or>
                       p = ''/etc/letsencrypt/live/panel/fullchain.pem''),
      path_join = example_join,
      project_root = ''/srv/argon-core'',
      expectedUIPath = ''/srv/argon-ui'',
      config_file = (\<lambda>p. None),
      install_status = 0, env_written = True, build_status = 0, dist_exists = False,
      rm_ok = True, mkdir_ok = True, ui_dist_built = True, copy_ok = True, save_ok = True,
      read_file = (\<lambda>p. if p = ''/etc/letsencrypt/live/panel/fullchain.pem'' then Some ''CERTIFICATE'' else None),
      can_listen = (\<lambda>p. True)\<rparr>"

definition example_replies :: prompts where
  "example_replies =
     \<lparr>confirm = True, customPath = [], deployment = Domain, domainAnswer = ''panel.example.com'',
      sslConfirm = True, sslPathAnswer = ''/etc/letsencrypt/live/panel'', saveConfigConfirm = False\<rparr>"

text \<open>
  \<^verbatim>\<open>deploy --force --local --ssl-path /etc/letsencrypt/live/panel\<close>,
  \<^verbatim>\<open>deploy --force --domain panel.example.com --ssl-path /etc/letsencrypt/live/panel\<close>
  and \<^verbatim>\<open>deploy --domain panel.example.com\<close>.
\<close>

definition example_options_local :: deploy_options where
  "example_options_local =
     \<lparr>opt_force = True, opt_local = True, opt_domain = None,
      opt_sslPath = Some ''/etc/letsencrypt/live/panel'', opt_port = None, opt_webPort = None,
      opt_config = None\<rparr>"

definition example_options_domain :: deploy_options where
  "example_options_domain =
     \<lparr>opt_force = True, opt_local = False, opt_domain = Some ''panel.example.com'',
      opt_sslPath = Some ''/etc/letsencrypt/live/panel'', opt_port = None, opt_webPort = None,
      opt_config = None\<rparr>"

definition example_options_asked :: deploy_options where
  "example_options_asked =
     \<lparr>opt_force = False, opt_local = False, opt_domain = Some ''panel.example.com'',
      opt_sslPath = None, opt_port = None, opt_webPort = None, opt_config = None\<rparr>"

section \<open>Properties of the migration engine\<close>

subsection \<open>The sort\<close>

lemma consistent_refl: "consistent_comparator cmp \<Longrightarrow> cmp a a = 0"
proof -
  assume c: "consistent_comparator cmp"
  then have "(cmp a a < 0) = (0 < cmp a a)" unfolding consistent_comparator_def by blast
  then show ?thesis by arith
qed



lemma consistent_zero_sym: "consistent_comparator cmp \<Longrightarrow> (cmp a b = 0) = (cmp b a = 0)"
proof -
  assume c: "consistent_comparator cmp"
  then have "(cmp a b < 0) = (0 < cmp b a)" "(cmp b a < 0) = (0 < cmp a b)"
    unfolding consistent_comparator_def by blast+
  then show ?thesis by arith
qed

lemma set_insert_sorted: "set (insert_sorted cmp x ys) = insert x (set ys)"
  by (induction ys) auto

lemma set_sort_by_id: "set (sort_by_id cmp ms) = set ms"
  unfolding sort_by_id_def by (induction ms) (auto simp: set_insert_sorted)




lemma apart_insert_sorted:
  assumes "consistent_comparator cmp"
  shows "sorted_wrt (\<lambda>a b. cmp (m_id a) (m_id b) \<noteq> 0) (insert_sorted cmp x ys) =
         ((\<forall>y\<in>set ys. cmp (m_id x) (m_id y) \<noteq> 0) \<and> sorted_wrt (\<lambda>a b. cmp (m_id a) (m_id b) \<noteq> 0) ys)"
  using consistent_zero_sym [OF assms] by (induction ys) (auto simp: set_insert_sorted)

lemma apart_sort_by_id:
  assumes "consistent_comparator cmp"
  shows "sorted_wrt (\<lambda>a b. cmp (m_id a) (m_id b) \<noteq> 0) (sort_by_id cmp ms) =
         sorted_wrt (\<lambda>a b. cmp (m_id a) (m_id b) \<noteq> 0) ms"
  unfolding sort_by_id_def
  by (induction ms) (auto simp: apart_insert_sorted [OF assms] set_sort_by_id [unfolded sort_by_id_def])

lemma distinct_insert_sorted:
  "distinct (map m_id (insert_sorted cmp x ys)) = (m_id x \<notin> m_id ` set ys \<and> distinct (map m_id ys))"
  by (induction ys) (auto simp: set_insert_sorted)

lemma distinct_sort_by_id: "distinct (map m_id (sort_by_id cmp ms)) = distinct (map m_id ms)"
  unfolding sort_by_id_def
  by (induction ms) (auto simp: distinct_insert_sorted set_sort_by_id [unfolded sort_by_id_def])


lemma apart_distinct:
  "consistent_comparator cmp \<Longrightarrow> sorted_wrt (\<lambda>a b. cmp a b \<noteq> 0) ids \<Longrightarrow> distinct ids"
  by (induction ids) (auto simp: consistent_refl)

subsection \<open>The loop\<close>

lemma apply_migration_succeeds:
  assumes fw: "forward imp m d = Completed d'"
    and led: "migrations d' = Some rows"
    and fresh: "\<not> m_applied m \<longrightarrow> m_id m \<notin> row_id ` set rows"
  shows "\<exists>d''. apply_migration imp t m d = Completed d'' \<and> tables d'' = tables d' \<and>
           migrations d'' = Some (rows @ (if m_applied m then [] else
              [\<lparr>row_id = m_id m, row_name = m_name m, executed_at = t\<rparr>]))"
  using assms by (cases "m_applied m") (simp_all add: apply_migration_def insert_migration_def)

lemma apply_migration_threw:
  assumes "forward imp m d = Threw msg d'"
  shows "apply_migration imp t m d = Threw msg d'"
  using assms by (simp add: apply_migration_def)

lemma forwards_succeed_Cons:
  assumes "forwards_succeed imp (m # ms) (tables d)"
  shows "\<exists>d'. forward imp m d = Completed d' \<and> migrations d' = migrations d \<and>
           forwards_succeed imp ms (tables d')"
proof -
  from assms have "case forward imp m d of Threw msg d' \<Rightarrow> False
      | Completed d' \<Rightarrow> migrations d' = migrations d \<and> forwards_succeed imp ms (tables d')"
    by simp
  then show ?thesis by (cases "forward imp m d") simp_all
qed

lemma forward_fails_after_Nil:
  assumes "forward_fails_after imp [] m (tables d)"
  shows "\<exists>msg d'. forward imp m d = Threw msg d' \<and> migrations d' = migrations d"
proof -
  from assms have "case forward imp m d of Threw msg d' \<Rightarrow> migrations d' = migrations d
      | Completed d' \<Rightarrow> False"
    by simp
  then show ?thesis by (cases "forward imp m d") simp_all
qed

lemma forward_fails_after_Cons:
  assumes "forward_fails_after imp (p # ps) m (tables d)"
  shows "\<exists>d'. forward imp p d = Completed d' \<and> migrations d' = migrations d \<and>
           forward_fails_after imp ps m (tables d')"
proof -
  from assms have "case forward imp p d of Threw msg d' \<Rightarrow> False
      | Completed d' \<Rightarrow> migrations d' = migrations d \<and> forward_fails_after imp ps m (tables d')"
    by simp
  then show ?thesis by (cases "forward imp p d") simp_all
qed

lemma run_migrations_step:
  assumes "apply_migration imp (now (length (attempted st))) m (run_db st) = Completed d"
  shows "run_migrations imp now (m # ms) st =
         run_migrations imp now ms (st\<lparr>attempted := attempted st @ [m], run_db := d, applied := applied st @ [m]\<rparr>)"
  using assms by (simp add: Let_def)

lemma run_migrations_stop:
  assumes "apply_migration imp (now (length (attempted st))) m (run_db st) = Threw msg d"
  shows "run_migrations imp now (m # ms) st =
         st\<lparr>attempted := attempted st @ [m], run_db := d, failure := Some (m_id m, msg), exit_code := Some 1\<rparr>"
  using assms by (simp add: Let_def)

lemma run_migrations_succeed:
  assumes "forwards_succeed imp ms (tables (run_db st))"
    and "migrations (run_db st) = Some rows"
    and "distinct (map m_id (filter (\<lambda>m. \<not> m_applied m) ms))"
    and "\<forall>m\<in>set ms. \<not> m_applied m \<longrightarrow> m_id m \<notin> row_id ` set rows"
  shows "\<exists>new. attempted (run_migrations imp now ms st) = attempted st @ ms \<and>
           applied (run_migrations imp now ms st) = applied st @ ms \<and>
           failure (run_migrations imp now ms st) = failure st \<and>
           exit_code (run_migrations imp now ms st) = exit_code st \<and>
           migrations (run_db (run_migrations imp now ms st)) = Some (rows @ new) \<and>
           map row_id new = map m_id (filter (\<lambda>m. \<not> m_applied m) ms)"
  using assms
proof (induction ms arbitrary: st rows)
  case Nil
  then show ?case by simp
next
  case (Cons m ms)
  let ?d = "run_db st"
  from forwards_succeed_Cons [OF Cons.prems(1)] obtain d' where fw: "forward imp m ?d = Completed d'"
    and keep: "migrations d' = migrations ?d"
    and rest: "forwards_succeed imp ms (tables d')"
    by blast
  from Cons.prems(4) have fresh: "\<not> m_applied m \<longrightarrow> m_id m \<notin> row_id ` set rows" by simp
  let ?row = "\<lparr>row_id = m_id m, row_name = m_name m, executed_at = now (length (attempted st))\<rparr>"
  let ?add = "if m_applied m then [] else [?row]"
  have led: "migrations d' = Some rows" using keep Cons.prems(2) by simp
  from apply_migration_succeeds [OF fw led fresh, of "now (length (attempted st))"]
  obtain d'' where ap: "apply_migration imp (now (length (attempted st))) m ?d = Completed d''"
    and t'': "tables d'' = tables d'"
    and m'': "migrations d'' = Some (rows @ ?add)"
    by blast
  let ?st = "st\<lparr>attempted := attempted st @ [m], run_db := d'', applied := applied st @ [m]\<rparr>"
  have step: "run_migrations imp now (m # ms) st = run_migrations imp now ms ?st"
    using ap by (rule run_migrations_step)
  have p1: "forwards_succeed imp ms (tables (run_db ?st))" using rest t'' by simp
  have p2: "migrations (run_db ?st) = Some (rows @ ?add)" using m'' by simp
  have p3: "distinct (map m_id (filter (\<lambda>m. \<not> m_applied m) ms))"
    using Cons.prems(3) by (cases "m_applied m") simp_all
  have p4: "\<forall>x\<in>set ms. \<not> m_applied x \<longrightarrow> m_id x \<notin> row_id ` set (rows @ ?add)"
  proof (cases "m_applied m")
    case True
    then show ?thesis using Cons.prems(4) by simp
  next
    case False
    then show ?thesis using Cons.prems(3,4) by (auto simp: image_iff)
  qed
  from Cons.IH [OF p1 p2 p3 p4] obtain new where
    n: "attempted (run_migrations imp now ms ?st) = attempted ?st @ ms"
       "applied (run_migrations imp now ms ?st) = applied ?st @ ms"
       "failure (run_migrations imp now ms ?st) = failure ?st"
       "exit_code (run_migrations imp now ms ?st) = exit_code ?st"
       "migrations (run_db (run_migrations imp now ms ?st)) = Some ((rows @ ?add) @ new)"
       "map row_id new = map m_id (filter (\<lambda>m. \<not> m_applied m) ms)"
    by blast
  have "attempted (run_migrations imp now (m # ms) st) = attempted st @ m # ms"
    unfolding step using n(1) by simp
  moreover have "applied (run_migrations imp now (m # ms) st) = applied st @ m # ms"
    unfolding step using n(2) by simp
  moreover have "failure (run_migrations imp now (m # ms) st) = failure st"
    unfolding step using n(3) by simp
  moreover have "exit_code (run_migrations imp now (m # ms) st) = exit_code st"
    unfolding step using n(4) by simp
  moreover have "migrations (run_db (run_migrations imp now (m # ms) st)) = Some (rows @ (?add @ new))"
    unfolding step using n(5) by simp
  moreover have "map row_id (?add @ new) = map m_id (filter (\<lambda>m. \<not> m_applied m) (m # ms))"
    using n(6) by (cases "m_applied m") simp_all
  ultimately show ?case by blast
qed

lemma run_migrations_fail:
  assumes "forward_fails_after imp pre m (tables (run_db st))"
    and "migrations (run_db st) = Some rows"
    and "distinct (map m_id (filter (\<lambda>m. \<not> m_applied m) pre))"
    and "\<forall>m\<in>set pre. \<not> m_applied m \<longrightarrow> m_id m \<notin> row_id ` set rows"
  shows "\<exists>new msg. attempted (run_migrations imp now (pre @ m # post) st) = attempted st @ pre @ [m] \<and>
           applied (run_migrations imp now (pre @ m # post) st) = applied st @ pre \<and>
           failure (run_migrations imp now (pre @ m # post) st) = Some (m_id m, msg) \<and>
           exit_code (run_migrations imp now (pre @ m # post) st) = Some 1 \<and>
           migrations (run_db (run_migrations imp now (pre @ m # post) st)) = Some (rows @ new) \<and>
           map row_id new = map m_id (filter (\<lambda>m. \<not> m_applied m) pre)"
  using assms
proof (induction pre arbitrary: st rows)
  case Nil
  let ?d = "run_db st"
  from forward_fails_after_Nil [OF Nil.prems(1)] obtain msg d' where fw: "forward imp m ?d = Threw msg d'"
    and keep: "migrations d' = migrations ?d"
    by blast
  have "apply_migration imp (now (length (attempted st))) m ?d = Threw msg d'"
    using fw by (rule apply_migration_threw)
  then have stop: "run_migrations imp now ([] @ m # post) st =
      st\<lparr>attempted := attempted st @ [m], run_db := d', failure := Some (m_id m, msg), exit_code := Some 1\<rparr>"
    by (simp add: run_migrations_stop)
  have "migrations (run_db (run_migrations imp now ([] @ m # post) st)) = Some (rows @ [])"
    unfolding stop using keep Nil.prems(2) by simp
  moreover have "attempted (run_migrations imp now ([] @ m # post) st) = attempted st @ [] @ [m]"
    unfolding stop by simp
  moreover have "applied (run_migrations imp now ([] @ m # post) st) = applied st @ []"
    unfolding stop by simp
  moreover have "failure (run_migrations imp now ([] @ m # post) st) = Some (m_id m, msg)"
    unfolding stop by simp
  moreover have "exit_code (run_migrations imp now ([] @ m # post) st) = Some 1"
    unfolding stop by simp
  moreover have "map row_id [] = map m_id (filter (\<lambda>m. \<not> m_applied m) [])" by simp
  ultimately show ?case by blast
next
  case (Cons p pre)
  let ?d = "run_db st"
  from forward_fails_after_Cons [OF Cons.prems(1)] obtain d' where fw: "forward imp p ?d = Completed d'"
    and keep: "migrations d' = migrations ?d"
    and rest: "forward_fails_after imp pre m (tables d')"
    by blast
  from Cons.prems(4) have fresh: "\<not> m_applied p \<longrightarrow> m_id p \<notin> row_id ` set rows" by simp
  let ?row = "\<lparr>row_id = m_id p, row_name = m_name p, executed_at = now (length (attempted st))\<rparr>"
  let ?add = "if m_applied p then [] else [?row]"
  have led: "migrations d' = Some rows" using keep Cons.prems(2) by simp
  from apply_migration_succeeds [OF fw led fresh, of "now (length (attempted st))"]
  obtain d'' where ap: "apply_migration imp (now (length (attempted st))) p ?d = Completed d''"
    and t'': "tables d'' = tables d'"
    and m'': "migrations d'' = Some (rows @ ?add)"
    by blast
  let ?st = "st\<lparr>attempted := attempted st @ [p], run_db := d'', applied := applied st @ [p]\<rparr>"
  have step: "run_migrations imp now ((p # pre) @ m # post) st = run_migrations imp now (pre @ m # post) ?st"
    using ap by (simp add: run_migrations_step)
  have p1: "forward_fails_after imp pre m (tables (run_db ?st))" using rest t'' by simp
  have p2: "migrations (run_db ?st) = Some (rows @ ?add)" using m'' by simp
  have p3: "distinct (map m_id (filter (\<lambda>m. \<not> m_applied m) pre))"
    using Cons.prems(3) by (cases "m_applied p") simp_all
  have p4: "\<forall>x\<in>set pre. \<not> m_applied x \<longrightarrow> m_id x \<notin> row_id ` set (rows @ ?add)"
  proof (cases "m_applied p")
    case True
    then show ?thesis using Cons.prems(4) by simp
  next
    case False
    then show ?thesis using Cons.prems(3,4) by (auto simp: image_iff)
  qed
  from Cons.IH [OF p1 p2 p3 p4] obtain new msg where
    n: "attempted (run_migrations imp now (pre @ m # post) ?st) = attempted ?st @ pre @ [m]"
       "applied (run_migrations imp now (pre @ m # post) ?st) = applied ?st @ pre"
       "failure (run_migrations imp now (pre @ m # post) ?st) = Some (m_id m, msg)"
       "exit_code (run_migrations imp now (pre @ m # post) ?st) = Some 1"
       "migrations (run_db (run_migrations imp now (pre @ m # post) ?st)) = Some ((rows @ ?add) @ new)"
       "map row_id new = map m_id (filter (\<lambda>m. \<not> m_applied m) pre)"
    by blast
  have "attempted (run_migrations imp now ((p # pre) @ m # post) st) = attempted st @ (p # pre) @ [m]"
    unfolding step using n(1) by simp
  moreover have "applied (run_migrations imp now ((p # pre) @ m # post) st) = applied st @ p # pre"
    unfolding step using n(2) by simp
  moreover have "failure (run_migrations imp now ((p # pre) @ m # post) st) = Some (m_id m, msg)"
    unfolding step using n(3) by simp
  moreover have "exit_code (run_migrations imp now ((p # pre) @ m # post) st) = Some 1"
    unfolding step using n(4) by simp
  moreover have "migrations (run_db (run_migrations imp now ((p # pre) @ m # post) st)) = Some (rows @ (?add @ new))"
    unfolding step using n(5) by simp
  moreover have "map row_id (?add @ new) = map m_id (filter (\<lambda>m. \<not> m_applied m) (p # pre))"
    using n(6) by (cases "m_applied p") simp_all
  ultimately show ?case by blast
qed





subsection \<open>The run\<close>

lemma select_ids_ledger: "select_ids d = map row_id (ledger d)"
  by (simp add: select_ids_def ledger_def split: option.splits)

lemma create_migrations_table_facts:
  "migrations (create_migrations_table d) = Some (ledger d)"
  "tables (create_migrations_table d) = tables d"
  "select_ids (create_migrations_table d) = select_ids d"
  "ledger (create_migrations_table d) = ledger d"
  by (simp_all add: create_migrations_table_def ledger_def select_ids_def split: option.splits)

lemma create_migrations_table_idem:
  "migrations d = Some rows \<Longrightarrow> create_migrations_table d = d"
  by (simp add: create_migrations_table_def)

lemma to_migration_id: "m_id (to_migration ids file) = m_id (to_migration [] file)"
  by (simp add: to_migration_def Let_def)

lemma to_migration_applied: "m_applied (to_migration ids file) = (m_id (to_migration ids file) \<in> set ids)"
  by (simp add: to_migration_def Let_def)

lemma migrationFiles_applied:
  "m \<in> set (migrationFiles cmp ids files) \<Longrightarrow> m_applied m = (m_id m \<in> set ids)"
  by (auto simp: migrationFiles_def set_sort_by_id to_migration_applied)

lemma migrationFiles_ids:
  "m_id ` set (migrationFiles cmp ids files) = set (discovered_ids files)"
proof -
  have "m_id ` set (migrationFiles cmp ids files) =
        (\<lambda>file. m_id (to_migration ids file)) ` set (filter (\<lambda>file. endsWith file ''.ts'') files)"
    by (simp add: migrationFiles_def set_sort_by_id image_image)
  also have "\<dots> = (\<lambda>file. m_id (to_migration [] file)) ` set (filter (\<lambda>file. endsWith file ''.ts'') files)"
    using to_migration_id [of ids] by simp
  finally show ?thesis by (simp add: discovered_ids_def)
qed

lemma map_id_to_migration:
  "map m_id (map (to_migration ids) fs) = map (\<lambda>file. m_id (to_migration [] file)) fs"
  using to_migration_id [of ids] by simp

lemma migrationFiles_apart:
  assumes "consistent_comparator cmp" "no_equal_ids cmp files"
  shows "sorted_wrt (\<lambda>a b. cmp (m_id a) (m_id b) \<noteq> 0) (migrationFiles cmp ids files)"
proof -
  have "sorted_wrt (\<lambda>a b. cmp a b \<noteq> 0) (map m_id (map (to_migration ids) (filter (\<lambda>file. endsWith file ''.ts'') files)))"
    using assms(2) unfolding no_equal_ids_def discovered_ids_def map_id_to_migration .
  then have "sorted_wrt (\<lambda>a b. cmp (m_id a) (m_id b) \<noteq> 0) (map (to_migration ids) (filter (\<lambda>file. endsWith file ''.ts'') files))"
    by (simp add: sorted_wrt_map)
  then show ?thesis
    unfolding migrationFiles_def by (simp add: apart_sort_by_id [OF assms(1)])
qed


lemma migrationFiles_distinct:
  assumes "consistent_comparator cmp" "no_equal_ids cmp files"
  shows "distinct (map m_id (migrationFiles cmp ids files))"
proof -
  have "sorted_wrt (\<lambda>a b. cmp a b \<noteq> 0) (map m_id (migrationFiles cmp ids files))"
    using migrationFiles_apart [OF assms, of ids] by (simp add: sorted_wrt_map)
  then show ?thesis by (rule apart_distinct [OF assms(1)])
qed


lemma distinct_map_filter_ids:
  "distinct (map m_id xs) \<Longrightarrow> distinct (map m_id (filter P xs))"
  by (induction xs) auto

lemma filter_not_applied:
  "filter (\<lambda>m. \<not> m_applied m) (migrationFiles cmp ids files) =
   filter (\<lambda>m. m_id m \<notin> set ids) (migrationFiles cmp ids files)"
  by (rule filter_cong) (simp_all add: migrationFiles_applied)


text \<open>The run as a function of what it is to run.\<close>

lemma migrate_run_unfold:
  "migrate_run cmp imp now force files d0 =
     (let toRun = (if force then migrationFiles cmp (select_ids d0) files
                   else filter (\<lambda>m. m_id m \<notin> set (select_ids d0)) (migrationFiles cmp (select_ids d0) files));
          st0 = \<lparr>run_db = create_migrations_table d0, attempted = [], applied = [], failure = None, exit_code = None\<rparr>
      in if toRun = [] then st0\<lparr>exit_code := Some 0\<rparr>
         else (let st = run_migrations imp now toRun st0
               in case exit_code st of None \<Rightarrow> st\<lparr>exit_code := Some 0\<rparr> | Some code \<Rightarrow> st))"
  by (simp add: migrate_run_def Let_def create_migrations_table_facts filter_not_applied)

lemma migrate_run_succeeds:
  fixes d0 :: "'s database" and cmp :: "string \<Rightarrow> string \<Rightarrow> int"
    and files :: "string list" and force :: bool
  defines "mfs \<equiv> migrationFiles cmp (select_ids d0) files"
  defines "toRun \<equiv> (if force then mfs else filter (\<lambda>m. m_id m \<notin> set (select_ids d0)) mfs)"
  assumes dist: "distinct (map m_id mfs)"
    and ok: "forwards_succeed imp toRun (tables d0)"
  shows "\<exists>new. attempted (migrate_run cmp imp now force files d0) = toRun \<and>
           applied (migrate_run cmp imp now force files d0) = toRun \<and>
           failure (migrate_run cmp imp now force files d0) = None \<and>
           exit_code (migrate_run cmp imp now force files d0) = Some 0 \<and>
           migrations (run_db (migrate_run cmp imp now force files d0)) = Some (ledger d0 @ new) \<and>
           map row_id new = map m_id (filter (\<lambda>m. m_id m \<notin> set (select_ids d0)) toRun)"
proof (cases "toRun = []")
  case True
  then have "migrate_run cmp imp now force files d0 =
      \<lparr>run_db = create_migrations_table d0, attempted = [], applied = [], failure = None, exit_code = Some 0\<rparr>"
    unfolding toRun_def mfs_def by (simp add: migrate_run_unfold)
  then show ?thesis using True by (simp add: create_migrations_table_facts)
next
  case False
  let ?init = "\<lparr>run_db = create_migrations_table d0, attempted = [], applied = [], failure = None, exit_code = None\<rparr>"
  let ?st = "run_migrations imp now toRun ?init"
  have sub: "set toRun \<subseteq> set mfs" unfolding toRun_def by auto
  have flt: "filter (\<lambda>m. \<not> m_applied m) toRun = filter (\<lambda>m. m_id m \<notin> set (select_ids d0)) toRun"
    by (rule filter_cong) (use sub in \<open>auto simp: mfs_def migrationFiles_applied\<close>)
  have a1: "forwards_succeed imp toRun (tables (run_db ?init))"
    using ok by (simp add: create_migrations_table_facts)
  have a2: "migrations (run_db ?init) = Some (ledger d0)"
    by (simp add: create_migrations_table_facts)
  have dtr: "distinct (map m_id toRun)"
    using dist unfolding toRun_def by (simp add: distinct_map_filter_ids)
  have a3: "distinct (map m_id (filter (\<lambda>m. \<not> m_applied m) toRun))"
    using dtr by (rule distinct_map_filter_ids)
  have a4: "\<forall>m\<in>set toRun. \<not> m_applied m \<longrightarrow> m_id m \<notin> row_id ` set (ledger d0)"
    using sub by (auto simp: mfs_def migrationFiles_applied select_ids_ledger)
  from run_migrations_succeed [OF a1 a2 a3 a4, of now] obtain new where
    n: "attempted ?st = attempted ?init @ toRun" "applied ?st = applied ?init @ toRun"
       "failure ?st = failure ?init" "exit_code ?st = exit_code ?init"
       "migrations (run_db ?st) = Some (ledger d0 @ new)"
       "map row_id new = map m_id (filter (\<lambda>m. \<not> m_applied m) toRun)"
    by blast
  have r: "migrate_run cmp imp now force files d0 = ?st\<lparr>exit_code := Some 0\<rparr>"
    using False n(4) unfolding toRun_def mfs_def by (simp add: migrate_run_unfold Let_def)
  show ?thesis unfolding r using n flt by simp
qed




subsection \<open>The example project\<close>

lemma byte_order_consistent: "consistent_comparator byte_order"
  unfolding consistent_comparator_def byte_order_def by auto

lemma example_pending:
  "filter (\<lambda>m. m_id m \<notin> set (select_ids example_db)) (migrationFiles byte_order (select_ids example_db) example_files) =
   [\<lparr>m_id = ''20231231'', m_name = ''init'', m_filename = ''20231231_init.ts'',
      m_path = ''/app/migrations/20231231_init.ts'', m_applied = False\<rparr>,
    \<lparr>m_id = ''20240102'', m_name = ''add_roles'', m_filename = ''20240102_add_roles.ts'',
      m_path = ''/app/migrations/20240102_add_roles.ts'', m_applied = False\<rparr>,
    \<lparr>m_id = ''20240103'', m_name = ''add_nodes'', m_filename = ''20240103_add_nodes.ts'',
      m_path = ''/app/migrations/20240103_add_nodes.ts'', m_applied = False\<rparr>]"
  by code_simp

lemma example_no_equal_ids: "no_equal_ids byte_order example_files"
  by code_simp


lemma example_forwards_succeed:
  "forwards_succeed example_import
     (filter (\<lambda>m. m_id m \<notin> set (select_ids example_db)) (migrationFiles byte_order (select_ids example_db) example_files))
     (tables example_db)"
  unfolding example_pending
  by (simp add: forward_def example_import_def example_up_def)

lemma example_forward_fails:
  "forward_fails_after example_import_broken
     (take (2 - 1) (filter (\<lambda>m. m_id m \<notin> set (select_ids example_db)) (migrationFiles byte_order (select_ids example_db) example_files)))
     (filter (\<lambda>m. m_id m \<notin> set (select_ids example_db)) (migrationFiles byte_order (select_ids example_db) example_files) ! (2 - 1))
     (tables example_db)"
  unfolding example_pending
  by (simp add: forward_def example_import_broken_def example_up_def example_throw_def)



section \<open>The claims about the migration engine\<close>



subsection \<open>A forward operation that fails\<close>

text \<open>
  A failure the \<^verbatim>\<open>catch\<close> of the loop sees: the import fails, the file exports no
  function \<^verbatim>\<open>up\<close>, or the call of \<^verbatim>\<open>up\<close> throws. In a run without \<^verbatim>\<open>--force\<close> over
  units whose ids do not compare equal, let the forward operations of the first
  \<open>k - 1\<close> pending units (in ascending order of id) run through and the forward
  operation of the \<open>k\<close>-th fail in one of these ways. Then the ledger
  afterwards is the ledger before followed by the ids of the first \<open>k - 1\<close> pending
  units; the id of the \<open>k\<close>-th is not in it; the units attempted are the first \<open>k\<close>, so
  none after the \<open>k\<close>-th; and the run exits with code 1 and an error that names the id of
  the \<open>k\<close>-th unit.
\<close>

lemma throwing_unit_stops_run:
  fixes cmp :: "string \<Rightarrow> string \<Rightarrow> int" and d0 :: "'s database" and files :: "string list"
    and importModule :: "string \<Rightarrow> string + 's migration_module" and now :: "nat \<Rightarrow> string"
    and k :: nat
  defines "pending \<equiv> filter (\<lambda>m. m_id m \<notin> set (select_ids d0)) (migrationFiles cmp (select_ids d0) files)"
  defines "r \<equiv> migrate_run cmp importModule now False files d0"
  assumes cmp: "consistent_comparator cmp"
    and ids: "no_equal_ids cmp files"
    and k: "1 \<le> k" "k \<le> length pending"
    and fails: "forward_fails_after importModule (take (k - 1) pending) (pending ! (k - 1)) (tables d0)"
  shows "select_ids (run_db r) = select_ids d0 @ map m_id (take (k - 1) pending) \<and>
         m_id (pending ! (k - 1)) \<notin> set (select_ids (run_db r)) \<and>
         applied r = take (k - 1) pending \<and>
         attempted r = take k pending \<and>
         exit_code r = Some 1 \<and>
         (\<exists>msg. failure r = Some (m_id (pending ! (k - 1)), msg))"
proof -
  let ?mfs = "migrationFiles cmp (select_ids d0) files"
  let ?pre = "take (k - 1) pending"
  let ?m = "pending ! (k - 1)"
  let ?post = "drop k pending"
  let ?init = "\<lparr>run_db = create_migrations_table d0, attempted = [], applied = [], failure = None, exit_code = None\<rparr>"
  have lt: "k - 1 < length pending" using k by simp
  have split: "pending = ?pre @ ?m # ?post"
    using id_take_nth_drop [OF lt] k(1) by simp
  have ne: "pending \<noteq> []" using lt by auto
  have dist: "distinct (map m_id ?mfs)" by (rule migrationFiles_distinct [OF cmp ids])
  have dp: "distinct (map m_id pending)"
    unfolding pending_def using dist by (rule distinct_map_filter_ids)
  have napp: "\<forall>m\<in>set pending. \<not> m_applied m"
    unfolding pending_def by (auto simp: migrationFiles_applied)
  have pre_sub: "set ?pre \<subseteq> set pending" by (rule set_take_subset)
  have flt: "filter (\<lambda>m. \<not> m_applied m) ?pre = ?pre"
    using napp pre_sub by (auto simp: filter_id_conv)
  have a1: "forward_fails_after importModule ?pre ?m (tables (run_db ?init))"
    using fails by (simp add: create_migrations_table_facts)
  have a2: "migrations (run_db ?init) = Some (ledger d0)"
    by (simp add: create_migrations_table_facts)
  have dpre: "distinct (map m_id ?pre)"
    using dp by (simp add: take_map [symmetric])
  have a3: "distinct (map m_id (filter (\<lambda>m. \<not> m_applied m) ?pre))"
    unfolding flt by (rule dpre)
  have fresh: "\<forall>m\<in>set pending. m_id m \<notin> row_id ` set (ledger d0)"
    unfolding pending_def by (auto simp: select_ids_ledger)
  have a4: "\<forall>m\<in>set ?pre. \<not> m_applied m \<longrightarrow> m_id m \<notin> row_id ` set (ledger d0)"
    using fresh pre_sub by blast
  from run_migrations_fail [OF a1 a2 a3 a4, of now ?post] obtain new msg where
    n: "attempted (run_migrations importModule now (?pre @ ?m # ?post) ?init) = attempted ?init @ ?pre @ [?m]"
       "applied (run_migrations importModule now (?pre @ ?m # ?post) ?init) = applied ?init @ ?pre"
       "failure (run_migrations importModule now (?pre @ ?m # ?post) ?init) = Some (m_id ?m, msg)"
       "exit_code (run_migrations importModule now (?pre @ ?m # ?post) ?init) = Some 1"
       "migrations (run_db (run_migrations importModule now (?pre @ ?m # ?post) ?init)) = Some (ledger d0 @ new)"
       "map row_id new = map m_id (filter (\<lambda>m. \<not> m_applied m) ?pre)"
    by blast
  have run: "r = run_migrations importModule now pending ?init"
    using ne n(4) [folded split]
    unfolding r_def pending_def by (simp add: migrate_run_unfold Let_def)
  have takek: "take k pending = ?pre @ [?m]"
    using take_Suc_conv_app_nth [OF lt] k(1) by simp
  have sel: "select_ids (run_db r) = select_ids d0 @ map m_id ?pre"
    unfolding run using n(5,6) [folded split] flt
    by (simp add: select_ids_def [of "run_db (run_migrations importModule now pending ?init)"]
        select_ids_ledger [of d0])
  have mk: "?m \<in> set pending" using lt by (rule nth_mem)
  have "m_id ?m \<notin> set (select_ids d0)" using mk unfolding pending_def by simp
  moreover have "m_id ?m \<notin> set (map m_id ?pre)"
  proof -
    have "map m_id (take k pending) = map m_id ?pre @ [m_id ?m]" by (simp add: takek)
    moreover have "distinct (map m_id (take k pending))"
      using dp by (simp add: take_map [symmetric])
    ultimately show ?thesis by simp
  qed
  ultimately have notin: "m_id ?m \<notin> set (select_ids (run_db r))" unfolding sel by simp
  have "applied r = ?pre" unfolding run using n(2) [folded split] by simp
  moreover have "attempted r = take k pending" unfolding run takek using n(1) [folded split] by simp
  moreover have "exit_code r = Some 1" unfolding run using n(4) [folded split] by simp
  moreover have "\<exists>msg. failure r = Some (m_id ?m, msg)" unfolding run using n(3) [folded split] by blast
  ultimately show ?thesis using sel notin by blast
qed

lemma throwing_unit_stops_run_example:
  "consistent_comparator byte_order \<and> no_equal_ids byte_order example_files \<and> (1::nat) \<le> 2 \<and>
   2 \<le> length (filter (\<lambda>m. m_id m \<notin> set (select_ids example_db)) (migrationFiles byte_order (select_ids example_db) example_files)) \<and>
   forward_fails_after example_import_broken
     (take (2 - 1) (filter (\<lambda>m. m_id m \<notin> set (select_ids example_db)) (migrationFiles byte_order (select_ids example_db) example_files)))
     (filter (\<lambda>m. m_id m \<notin> set (select_ids example_db)) (migrationFiles byte_order (select_ids example_db) example_files) ! (2 - 1))
     (tables example_db) \<and>
   select_ids (run_db (migrate_run byte_order example_import_broken example_clock False example_files example_db)) =
     [''20240101'', ''20231231''] \<and>
   map m_id (attempted (migrate_run byte_order example_import_broken example_clock False example_files example_db)) =
     [''20231231'', ''20240102''] \<and>
   exit_code (migrate_run byte_order example_import_broken example_clock False example_files example_db) = Some 1 \<and>
   (\<exists>msg. failure (migrate_run byte_order example_import_broken example_clock False example_files example_db) =
      Some (''20240102'', msg))"
proof -
  have one: "(1::nat) \<le> 2" by simp
  have len: "2 \<le> length (filter (\<lambda>m. m_id m \<notin> set (select_ids example_db)) (migrationFiles byte_order (select_ids example_db) example_files))"
    unfolding example_pending by simp
  note t = throwing_unit_stops_run [OF byte_order_consistent example_no_equal_ids one len
      example_forward_fails, of example_clock]
  have ids: "select_ids example_db = [''20240101'']" by code_simp
  from t have "select_ids (run_db (migrate_run byte_order example_import_broken example_clock False example_files example_db)) =
      select_ids example_db @ map m_id (take (2 - 1) (filter (\<lambda>m. m_id m \<notin> set (select_ids example_db)) (migrationFiles byte_order (select_ids example_db) example_files)))"
    by blast
  then have a: "select_ids (run_db (migrate_run byte_order example_import_broken example_clock False example_files example_db)) =
     [''20240101'', ''20231231'']"
    unfolding example_pending by (simp add: ids)
  from t have "attempted (migrate_run byte_order example_import_broken example_clock False example_files example_db) =
      take 2 (filter (\<lambda>m. m_id m \<notin> set (select_ids example_db)) (migrationFiles byte_order (select_ids example_db) example_files))"
    by blast
  then have b: "map m_id (attempted (migrate_run byte_order example_import_broken example_clock False example_files example_db)) =
     [''20231231'', ''20240102'']"
    unfolding example_pending by simp
  from t have c: "exit_code (migrate_run byte_order example_import_broken example_clock False example_files example_db) = Some 1"
    by blast
  from t have "\<exists>msg. failure (migrate_run byte_order example_import_broken example_clock False example_files example_db) =
      Some (m_id (filter (\<lambda>m. m_id m \<notin> set (select_ids example_db)) (migrationFiles byte_order (select_ids example_db) example_files) ! (2 - 1)), msg)"
    by blast
  then have d: "\<exists>msg. failure (migrate_run byte_order example_import_broken example_clock False example_files example_db) =
      Some (''20240102'', msg)"
    unfolding example_pending by simp
  show ?thesis
    using byte_order_consistent example_no_equal_ids one len example_forward_fails a b c d
    by blast
qed

text \<open>
  Claim C2. By the claim, when the forward operation of the \<open>k\<close>-th pending unit fails,
  that unit gets no ledger entry, the units after it are not attempted and the run ends
  with a code that is not 0 and names the unit. The loop catches what its body throws,
  but it calls \<^verbatim>\<open>migrationModule.up(db)\<close> without \<^verbatim>\<open>await\<close>, where it awaits the import one
  statement before. Take three pending units, the second with the forward operation
  \<^verbatim>\<open>export async function up(db) { throw new Error('no such table: roles') }\<close>: the
  call returns a promise that is rejected, the body of the \<^verbatim>\<open>try\<close> runs on, and the
  unit is recorded in the ledger; the third unit is attempted and applied, no error
  names the second, and the run reaches \<^verbatim>\<open>process.exit(0)\<close>. (The row is inserted in
  the same synchronous stretch as the call, before the runtime can report a rejection
  that nothing handles; the command itself installs no handler for one.)
\<close>

theorem rejected_up_is_recorded:
  "map m_id (filter (\<lambda>m. m_id m \<notin> set (select_ids example_db))
      (migrationFiles byte_order (select_ids example_db) example_files)) =
     [''20231231'', ''20240102'', ''20240103''] \<and>
   example_import_async ''/app/migrations/20240102_add_roles.ts'' =
     Inr \<lparr>up = Some example_reject, down = None\<rparr> \<and>
   fst (example_reject (create_migrations_table example_db)) = Rejected ''no such table: roles'' \<and>
   select_ids (run_db (migrate_run byte_order example_import_async example_clock False example_files example_db)) =
     [''20240101'', ''20231231'', ''20240102'', ''20240103''] \<and>
   map m_id (attempted (migrate_run byte_order example_import_async example_clock False example_files example_db)) =
     [''20231231'', ''20240102'', ''20240103''] \<and>
   map m_id (applied (migrate_run byte_order example_import_async example_clock False example_files example_db)) =
     [''20231231'', ''20240102'', ''20240103''] \<and>
   failure (migrate_run byte_order example_import_async example_clock False example_files example_db) = None \<and>
   exit_code (migrate_run byte_order example_import_async example_clock False example_files example_db) = Some 0"
proof -
  have a: "map m_id (filter (\<lambda>m. m_id m \<notin> set (select_ids example_db))
      (migrationFiles byte_order (select_ids example_db) example_files)) =
     [''20231231'', ''20240102'', ''20240103'']"
    unfolding example_pending by simp
  have b: "example_import_async ''/app/migrations/20240102_add_roles.ts'' =
     Inr \<lparr>up = Some example_reject, down = None\<rparr>"
    by (simp add: example_import_async_def)
  have c: "fst (example_reject (create_migrations_table example_db)) = Rejected ''no such table: roles''"
    by (simp add: example_reject_def)
  have d: "select_ids (run_db (migrate_run byte_order example_import_async example_clock False example_files example_db)) =
     [''20240101'', ''20231231'', ''20240102'', ''20240103'']"
    by code_simp
  have e: "map m_id (attempted (migrate_run byte_order example_import_async example_clock False example_files example_db)) =
     [''20231231'', ''20240102'', ''20240103'']"
    by code_simp
  have f: "map m_id (applied (migrate_run byte_order example_import_async example_clock False example_files example_db)) =
     [''20231231'', ''20240102'', ''20240103'']"
    by code_simp
  have g: "failure (migrate_run byte_order example_import_async example_clock False example_files example_db) = None"
    by code_simp
  have h: "exit_code (migrate_run byte_order example_import_async example_clock False example_files example_db) = Some 0"
    by code_simp
  from a b c d e f g h show ?thesis by blast
qed

text \<open>
  Claim C3. After a run without \<^verbatim>\<open>--force\<close> whose pending forward operations
  succeeded, a second run without \<^verbatim>\<open>--force\<close> over the same files attempts and applies
  no unit, leaves the database, and so the ledger, as the first run left it, and exits
  with code 0.
\<close>

theorem second_run_applies_nothing:
  fixes cmp :: "string \<Rightarrow> string \<Rightarrow> int" and d0 :: "'s database" and files :: "string list"
    and importModule importModule' :: "string \<Rightarrow> string + 's migration_module"
    and now now' :: "nat \<Rightarrow> string"
  defines "pending \<equiv> filter (\<lambda>m. m_id m \<notin> set (select_ids d0)) (migrationFiles cmp (select_ids d0) files)"
  defines "first_run \<equiv> migrate_run cmp importModule now False files d0"
  defines "second_run \<equiv> migrate_run cmp importModule' now' False files (run_db first_run)"
  assumes cmp: "consistent_comparator cmp"
    and ids: "no_equal_ids cmp files"
    and ok: "forwards_succeed importModule pending (tables d0)"
  shows "attempted second_run = [] \<and> applied second_run = [] \<and>
         run_db second_run = run_db first_run \<and>
         failure second_run = None \<and> exit_code second_run = Some 0"
proof -
  let ?mfs = "migrationFiles cmp (select_ids d0) files"
  let ?d1 = "run_db first_run"
  have dist: "distinct (map m_id ?mfs)" by (rule migrationFiles_distinct [OF cmp ids])
  have ok': "forwards_succeed importModule
      (if False then ?mfs else filter (\<lambda>m. m_id m \<notin> set (select_ids d0)) ?mfs) (tables d0)"
    using ok by (simp add: pending_def)
  from migrate_run_succeeds [OF dist ok', of now] obtain new where
    n: "migrations ?d1 = Some (ledger d0 @ new)"
       "map row_id new = map m_id (filter (\<lambda>m. m_id m \<notin> set (select_ids d0)) pending)"
    unfolding first_run_def pending_def by auto
  have new: "map row_id new = map m_id pending"
    using n(2) by (simp add: pending_def)
  have sel: "select_ids ?d1 = select_ids d0 @ map m_id pending"
    using n(1) new by (simp add: select_ids_def [of ?d1] select_ids_ledger [of d0])
  have all_in: "\<forall>m\<in>set (migrationFiles cmp (select_ids ?d1) files). m_id m \<in> set (select_ids ?d1)"
  proof
    fix m assume "m \<in> set (migrationFiles cmp (select_ids ?d1) files)"
    then have "m_id m \<in> set (discovered_ids files)"
      using migrationFiles_ids [of cmp "select_ids ?d1" files] by blast
    then have "m_id m \<in> m_id ` set ?mfs" by (simp add: migrationFiles_ids)
    then obtain m' where m': "m' \<in> set ?mfs" "m_id m' = m_id m" by auto
    show "m_id m \<in> set (select_ids ?d1)"
    proof (cases "m_id m \<in> set (select_ids d0)")
      case True
      then show ?thesis unfolding sel by simp
    next
      case False
      with m' have "m' \<in> set pending" unfolding pending_def by simp
      then have "m_id m' \<in> m_id ` set pending" by (rule imageI)
      with m'(2) show ?thesis unfolding sel by simp
    qed
  qed
  have none: "filter (\<lambda>m. m_id m \<notin> set (select_ids ?d1)) (migrationFiles cmp (select_ids ?d1) files) = []"
    using all_in by (simp add: filter_empty_conv)
  have same: "create_migrations_table ?d1 = ?d1"
    using n(1) by (rule create_migrations_table_idem)
  have "second_run = \<lparr>run_db = ?d1, attempted = [], applied = [], failure = None, exit_code = Some 0\<rparr>"
    unfolding second_run_def by (simp add: migrate_run_unfold none same)
  then show ?thesis by simp
qed

theorem second_run_applies_nothing_witness:
  "consistent_comparator byte_order \<and> no_equal_ids byte_order example_files \<and>
   forwards_succeed example_import
     (filter (\<lambda>m. m_id m \<notin> set (select_ids example_db)) (migrationFiles byte_order (select_ids example_db) example_files))
     (tables example_db) \<and>
   applied (migrate_run byte_order example_import example_clock False example_files
      (run_db (migrate_run byte_order example_import example_clock False example_files example_db))) = [] \<and>
   run_db (migrate_run byte_order example_import example_clock False example_files
      (run_db (migrate_run byte_order example_import example_clock False example_files example_db))) =
   run_db (migrate_run byte_order example_import example_clock False example_files example_db)"
  using byte_order_consistent example_no_equal_ids example_forwards_succeed
    second_run_applies_nothing [OF byte_order_consistent example_no_equal_ids example_forwards_succeed,
      of example_import example_clock example_clock]
  by blast



section \<open>The claim about creating a unit\<close>

lemma digits_filter:
  "digits n s \<Longrightarrow> filter (\<lambda>c. c \<notin> set ''-:T.Z'') s = s"
  unfolding digits_def by (induction s arbitrary: n) (auto simp: list_all_iff)

lemma digits_length: "digits n s \<Longrightarrow> length s = n"
  by (simp add: digits_def)

lemma digits_no_underscore: "digits n s \<Longrightarrow> CHR ''_'' \<notin> set s"
  unfolding digits_def by (auto simp: list_all_iff)

lemma token_of_well_formed:
  assumes "well_formed t"
  shows "timestamp_token (toISOString t) =
         year t @ month t @ day t @ hour t @ minute t @ second t"
proof -
  from assms have d: "digits 4 (year t)" "digits 2 (month t)" "digits 2 (day t)" "digits 2 (hour t)"
    "digits 2 (minute t)" "digits 2 (second t)" "digits 3 (millisecond t)"
    by (simp_all add: well_formed_def)
  have "filter (\<lambda>c. c \<notin> set ''-:T.Z'') (toISOString t) =
        (year t @ month t @ day t @ hour t @ minute t @ second t) @ millisecond t"
    by (simp only: toISOString_def filter_append d [THEN digits_filter]) simp
  moreover have "length (year t @ month t @ day t @ hour t @ minute t @ second t) = 14"
    by (simp add: d [THEN digits_length])
  ultimately show ?thesis by (simp add: timestamp_token_def)
qed

lemma first_piece_split:
  "c \<notin> set a \<Longrightarrow> first_piece (split c (a @ c # b)) = a"
  by (induction a) (auto split: list.splits)

lemma token_fields_eq:
  assumes "well_formed t1" "well_formed t2"
  shows "(timestamp_token (toISOString t1) = timestamp_token (toISOString t2)) =
         (year t1 = year t2 \<and> month t1 = month t2 \<and> day t1 = day t2 \<and>
          hour t1 = hour t2 \<and> minute t1 = minute t2 \<and> second t1 = second t2)"
proof -
  from assms(1) have a: "length (year t1) = 4" "length (month t1) = 2" "length (day t1) = 2"
    "length (hour t1) = 2" "length (minute t1) = 2" "length (second t1) = 2"
    by (simp_all add: well_formed_def digits_def)
  from assms(2) have b: "length (year t2) = 4" "length (month t2) = 2" "length (day t2) = 2"
    "length (hour t2) = 2" "length (minute t2) = 2" "length (second t2) = 2"
    by (simp_all add: well_formed_def digits_def)
  show ?thesis
    unfolding token_of_well_formed [OF assms(1)] token_of_well_formed [OF assms(2)]
    by (simp add: a b)
qed

lemma token_length: "well_formed t \<Longrightarrow> length (timestamp_token (toISOString t)) = 14"
  by (simp add: token_of_well_formed well_formed_def digits_def)

lemma token_no_underscore:
  "well_formed t \<Longrightarrow> CHR ''_'' \<notin> set (timestamp_token (toISOString t))"
  by (auto simp: token_of_well_formed well_formed_def dest: digits_no_underscore)

lemma example_time_well_formed:
  "well_formed (example_time ''100'')" "well_formed (example_time ''900'')"
  by code_simp+

lemma replace_spaces_set:
  "set (replace_spaces in_run skip s) \<subseteq> insert CHR ''_'' (set s)"
  by (induction in_run skip s rule: replace_spaces.induct) (auto split: option.splits)

lemma split_first:
  "c \<notin> set a \<Longrightarrow> split c (a @ c # b) = a # split c b"
  by (induction a) (auto split: list.splits)

lemma split_nonempty: "split c s \<noteq> []"
  by (induction s) (auto split: list.splits)

lemma join_with_split: "join_with c (split c s) = s"
proof (induction s)
  case Nil
  then show ?case by simp
next
  case (Cons x xs)
  show ?case
  proof (cases "x = c")
    case True
    obtain p ps where ps: "split c xs = p # ps"
      using split_nonempty [of c xs] by (cases "split c xs") auto
    with True Cons show ?thesis by simp
  next
    case False
    obtain p ps where ps: "split c xs = p # ps"
      using split_nonempty [of c xs] by (cases "split c xs") auto
    have "join_with c ((x # p) # ps) = x # join_with c (p # ps)"
      by (cases ps) simp_all
    with False Cons ps show ?thesis by simp
  qed
qed

lemma strip_ts_append: "strip_ts (s @ ''.ts'') = s"
  by (simp add: strip_ts_def endsWith_def)

lemma to_migration_of_created:
  assumes tok: "CHR ''_'' \<notin> set token"
    and seg: "last_segment path = token @ ''_'' @ slug @ ''.ts''"
  shows "m_id (to_migration ids path) = token"
    and "m_name (to_migration ids path) = slug"
    and "m_filename (to_migration ids path) = token @ ''_'' @ slug @ ''.ts''"
proof -
  have f: "pop_or_empty (split CHR ''/'' path) = token @ CHR ''_'' # (slug @ ''.ts'')"
    using seg by (simp add: last_segment_def)
  have s1: "split CHR ''_'' (token @ CHR ''_'' # (slug @ ''.ts'')) = token # split CHR ''_'' (slug @ ''.ts'')"
    using tok by (rule split_first)
  have st: "strip_ts (token @ CHR ''_'' # (slug @ ''.ts'')) = token @ CHR ''_'' # slug"
    using strip_ts_append [of "token @ CHR ''_'' # slug"] by simp
  have s2: "split CHR ''_'' (token @ CHR ''_'' # slug) = token # split CHR ''_'' slug"
    using tok by (rule split_first)
  show "m_id (to_migration ids path) = token"
    by (simp add: to_migration_def Let_def f s1)
  show "m_name (to_migration ids path) = slug"
    by (simp add: to_migration_def Let_def f st s2 join_with_split)
  show "m_filename (to_migration ids path) = token @ ''_'' @ slug @ ''.ts''"
    by (simp add: to_migration_def Let_def f)
qed

lemma split_no_separator: "c \<notin> set s \<Longrightarrow> split c s = [s]"
  by (induction s) (auto split: list.splits)

lemma length_split: "length (split c s) = Suc (length (filter (\<lambda>x. x = c) s))"
  by (induction s) (auto split: list.splits)

lemma pop_or_empty_Cons: "ps \<noteq> [] \<Longrightarrow> pop_or_empty (p # ps) = pop_or_empty ps"
  by (cases ps) simp_all

lemma pop_split_after:
  "pop_or_empty (split c (a @ c # b)) = pop_or_empty (split c b)"
proof (induction a)
  case Nil
  show ?case using split_nonempty [of c b] by (simp add: pop_or_empty_Cons)
next
  case (Cons x xs)
  obtain p ps where ps: "split c (xs @ c # b) = p # ps"
    using split_nonempty [of c "xs @ c # b"] by (cases "split c (xs @ c # b)") auto
  have "length (p # ps) = Suc (length (filter (\<lambda>x. x = c) (xs @ c # b)))"
    using length_split [of c "xs @ c # b"] ps by simp
  then have ne: "ps \<noteq> []" by auto
  show ?case
  proof (cases "x = c")
    case True
    then show ?thesis using Cons ps by simp
  next
    case False
    then have "pop_or_empty (split c ((x # xs) @ c # b)) = pop_or_empty ((x # p) # ps)"
      using ps by simp
    also have "\<dots> = pop_or_empty ps" using ne by (rule pop_or_empty_Cons)
    also have "\<dots> = pop_or_empty (p # ps)" using ne by (rule pop_or_empty_Cons [symmetric])
    finally show ?thesis using Cons ps by simp
  qed
qed

lemma example_join_last:
  assumes "CHR ''/'' \<notin> set file"
  shows "last_segment (example_join dir file) = file"
proof -
  have "pop_or_empty (split CHR ''/'' (dir @ CHR ''/'' # file)) = pop_or_empty (split CHR ''/'' file)"
    by (rule pop_split_after)
  then show ?thesis
    using split_no_separator [OF assms] by (simp add: last_segment_def example_join_def)
qed

lemma create_without_name:
  "migrate_create join dir dir_ready fs t g [] =
     \<lparr>migrationName = None, migrationPath = None, files_after = fs, create_exit = 1\<rparr>"
  by (simp add: migrate_create_def)

lemma create_without_directory:
  "migrate_create join dir False fs t g name =
     \<lparr>migrationName = None, migrationPath = None, files_after = fs, create_exit = 1\<rparr>"
  by (simp add: migrate_create_def)

lemma example_tokens:
  "year (example_time ms) @ month (example_time ms) @ day (example_time ms) @
   hour (example_time ms) @ minute (example_time ms) @ second (example_time ms) = ''20240305102030''"
  by (simp add: example_time_def)

lemma example_slugs:
  "slugify ''add users'' = ''add_users''" "slugify ''add roles'' = ''add_roles''"
  "slugify ''add_users'' = ''add_users''"
  by code_simp+

lemma slugify_unicode:
  "slugify (''add'' @ [CHR 0xC2, CHR 0xA0, CHR 0x20, CHR 0xE3, CHR 0x80, CHR 0x80] @ ''users  table'') =
     ''add_users_table''"
  by code_simp

text \<open>
  Claim C9, as amended. \<^verbatim>\<open>bolt migrate --create name\<close>, for a name that is not empty,
  writes the template of the new unit to the file \<^verbatim>\<open><token>_<slug>.ts\<close> of the migrations
  directory and exits with code 0, where the token is the fourteen digits of the UTC
  date and time to the second and the slug is the name with every run of white space
  replaced by one underscore. Where that file name is the last segment of the path (the
  slug has no slash), a run reads from the path the token alone as the id of the unit,
  and the slug as its name. Two creations get the same file name exactly when they fall
  in the same second and their slugs are equal, and the same id exactly when they fall
  in the same second: no counter and no finer clock tells them apart.
\<close>

theorem create_names_unit:
  fixes join :: "string \<Rightarrow> string \<Rightarrow> string" and dir :: string
    and fs1 fs2 :: "string \<Rightarrow> file_content option"
    and t1 g1 t2 g2 :: utc_time and name1 name2 :: string and ids :: "string list"
    and token1 token2 file1 file2 :: string and c1 c2 :: created
  defines "token1 \<equiv> year t1 @ month t1 @ day t1 @ hour t1 @ minute t1 @ second t1"
  defines "token2 \<equiv> year t2 @ month t2 @ day t2 @ hour t2 @ minute t2 @ second t2"
  defines "file1 \<equiv> token1 @ ''_'' @ slugify name1 @ ''.ts''"
  defines "file2 \<equiv> token2 @ ''_'' @ slugify name2 @ ''.ts''"
  defines "c1 \<equiv> migrate_create join dir True fs1 t1 g1 name1"
  defines "c2 \<equiv> migrate_create join dir True fs2 t2 g2 name2"
  assumes wf1: "well_formed t1" and wf2: "well_formed t2"
    and n1: "name1 \<noteq> []" and n2: "name2 \<noteq> []"
  shows "migrationName c1 = Some (token1 @ ''_'' @ slugify name1) \<and>
         migrationPath c1 = Some (join dir file1) \<and>
         files_after c1 (join dir file1) = Some (MigrationTemplate name1 (toISOString g1)) \<and>
         create_exit c1 = 0 \<and>
         (last_segment (join dir file1) = file1 \<longrightarrow>
            m_id (to_migration ids (join dir file1)) = token1 \<and>
            m_name (to_migration ids (join dir file1)) = slugify name1) \<and>
         (migrationName c1 = migrationName c2) = (token1 = token2 \<and> slugify name1 = slugify name2) \<and>
         (last_segment (join dir file1) = file1 \<and> last_segment (join dir file2) = file2 \<longrightarrow>
            (m_id (to_migration ids (join dir file1)) = m_id (to_migration ids (join dir file2))) =
              (token1 = token2)) \<and>
         (token1 = token2) =
           (year t1 = year t2 \<and> month t1 = month t2 \<and> day t1 = day t2 \<and>
            hour t1 = hour t2 \<and> minute t1 = minute t2 \<and> second t1 = second t2)"
proof -
  have k1: "timestamp_token (toISOString t1) = token1"
    unfolding token1_def by (rule token_of_well_formed [OF wf1])
  have k2: "timestamp_token (toISOString t2) = token2"
    unfolding token2_def by (rule token_of_well_formed [OF wf2])
  have nm1: "migrationName c1 = Some (token1 @ ''_'' @ slugify name1)"
    and nm2: "migrationName c2 = Some (token2 @ ''_'' @ slugify name2)"
    and p1: "migrationPath c1 = Some (join dir file1)"
    and p2: "migrationPath c2 = Some (join dir file2)"
    and f1: "files_after c1 (join dir file1) = Some (MigrationTemplate name1 (toISOString g1))"
    and e1: "create_exit c1 = 0"
    using n1 n2 by (simp_all add: c1_def c2_def file1_def file2_def migrate_create_def Let_def k1 k2)
  have u1: "CHR ''_'' \<notin> set token1" using token_no_underscore [OF wf1] by (simp add: k1)
  have u2: "CHR ''_'' \<notin> set token2" using token_no_underscore [OF wf2] by (simp add: k2)
  have len: "length token1 = length token2"
    using token_length [OF wf1] token_length [OF wf2] by (simp add: k1 k2)
  have eqn: "(migrationName c1 = migrationName c2) = (token1 = token2 \<and> slugify name1 = slugify name2)"
    unfolding nm1 nm2 using len by simp
  have i1: "m_id (to_migration ids (join dir file1)) = token1 \<and>
            m_name (to_migration ids (join dir file1)) = slugify name1"
    if s: "last_segment (join dir file1) = file1"
    using to_migration_of_created(1,2) [OF u1, of "join dir file1" "slugify name1" ids] s
    by (simp add: file1_def)
  have i2: "m_id (to_migration ids (join dir file2)) = token2"
    if s: "last_segment (join dir file2) = file2"
    using to_migration_of_created(1) [OF u2, of "join dir file2" "slugify name2" ids] s
    by (simp add: file2_def)
  have tk: "(token1 = token2) =
           (year t1 = year t2 \<and> month t1 = month t2 \<and> day t1 = day t2 \<and>
            hour t1 = hour t2 \<and> minute t1 = minute t2 \<and> second t1 = second t2)"
    using token_fields_eq [OF wf1 wf2] by (simp add: k1 k2)
  from nm1 p1 f1 e1 i1 i2 eqn tk show ?thesis by simp
qed

theorem create_names_unit_witness:
  "well_formed (example_time ''100'') \<and> well_formed (example_time ''900'') \<and>
   ''add users'' \<noteq> [] \<and> ''add roles'' \<noteq> [] \<and>
   last_segment (example_join ''/app/migrations'' ''20240305102030_add_users.ts'') =
     ''20240305102030_add_users.ts'' \<and>
   last_segment (example_join ''/app/migrations'' ''20240305102030_add_roles.ts'') =
     ''20240305102030_add_roles.ts'' \<and>
   migrationName (migrate_create example_join ''/app/migrations'' True Map.empty
      (example_time ''100'') (example_time ''100'') ''add users'') = Some ''20240305102030_add_users'' \<and>
   migrationPath (migrate_create example_join ''/app/migrations'' True Map.empty
      (example_time ''100'') (example_time ''100'') ''add users'') =
     Some ''/app/migrations/20240305102030_add_users.ts'' \<and>
   m_id (to_migration [] ''/app/migrations/20240305102030_add_users.ts'') = ''20240305102030'' \<and>
   m_name (to_migration [] ''/app/migrations/20240305102030_add_users.ts'') = ''add_users'' \<and>
   m_id (to_migration [] ''/app/migrations/20240305102030_add_users.ts'') =
     m_id (to_migration [] ''/app/migrations/20240305102030_add_roles.ts'') \<and>
   migrationName (migrate_create example_join ''/app/migrations'' True Map.empty
      (example_time ''100'') (example_time ''100'') ''add users'') \<noteq>
   migrationName (migrate_create example_join ''/app/migrations'' True Map.empty
      (example_time ''900'') (example_time ''900'') ''add roles'')"
proof -
  have n: "''add users'' \<noteq> []" "''add roles'' \<noteq> []" by simp_all
  have l1: "last_segment (example_join ''/app/migrations'' ''20240305102030_add_users.ts'') =
     ''20240305102030_add_users.ts''"
    by (rule example_join_last) simp
  have l2: "last_segment (example_join ''/app/migrations'' ''20240305102030_add_roles.ts'') =
     ''20240305102030_add_roles.ts''"
    by (rule example_join_last) simp
  have j1: "example_join ''/app/migrations'' ''20240305102030_add_users.ts'' =
      ''/app/migrations/20240305102030_add_users.ts''"
    and j2: "example_join ''/app/migrations'' ''20240305102030_add_roles.ts'' =
      ''/app/migrations/20240305102030_add_roles.ts''"
    by (simp_all add: example_join_def)
  note t = create_names_unit [OF example_time_well_formed n, where join = example_join
      and dir = "''/app/migrations''" and ?fs1.0 = Map.empty and ?fs2.0 = Map.empty
      and ?g1.0 = "example_time ''100''" and ?g2.0 = "example_time ''900''" and ids = "[]",
      unfolded example_tokens example_slugs, simplified]
  from t have a: "migrationName (migrate_create example_join ''/app/migrations'' True Map.empty
      (example_time ''100'') (example_time ''100'') ''add users'') = Some ''20240305102030_add_users''"
    by blast
  from t have b: "migrationPath (migrate_create example_join ''/app/migrations'' True Map.empty
      (example_time ''100'') (example_time ''100'') ''add users'') =
     Some (example_join ''/app/migrations'' ''20240305102030_add_users.ts'')"
    by blast
  from t l1 have c: "m_id (to_migration [] (example_join ''/app/migrations'' ''20240305102030_add_users.ts'')) = ''20240305102030'' \<and>
      m_name (to_migration [] (example_join ''/app/migrations'' ''20240305102030_add_users.ts'')) = ''add_users''"
    by blast
  from t l1 l2 have d: "m_id (to_migration [] (example_join ''/app/migrations'' ''20240305102030_add_users.ts'')) =
      m_id (to_migration [] (example_join ''/app/migrations'' ''20240305102030_add_roles.ts''))"
    by blast
  from t have e: "migrationName (migrate_create example_join ''/app/migrations'' True Map.empty
      (example_time ''100'') (example_time ''100'') ''add users'') \<noteq>
   migrationName (migrate_create example_join ''/app/migrations'' True Map.empty
      (example_time ''900'') (example_time ''900'') ''add roles'')"
    by blast
  show ?thesis
    using example_time_well_formed n l1 l2 a b [unfolded j1] c [unfolded j1] d [unfolded j1 j2] e
    by blast
qed

text \<open>
  The claim as stated fails: two units created 800 milliseconds apart within one
  second, under the names \<^verbatim>\<open>add users\<close> and \<^verbatim>\<open>add_users\<close>, get one name, one path
  and one id, and the second creation replaces the file of the first.
\<close>

theorem create_collision:
  "toISOString (example_time ''100'') \<noteq> toISOString (example_time ''900'') \<and>
   ''add users'' \<noteq> ''add_users'' \<and>
   migrationName (migrate_create example_join ''/app/migrations'' True Map.empty
      (example_time ''100'') (example_time ''100'') ''add users'') =
   migrationName (migrate_create example_join ''/app/migrations'' True Map.empty
      (example_time ''900'') (example_time ''900'') ''add_users'') \<and>
   migrationPath (migrate_create example_join ''/app/migrations'' True Map.empty
      (example_time ''100'') (example_time ''100'') ''add users'') =
     Some ''/app/migrations/20240305102030_add_users.ts'' \<and>
   migrationPath (migrate_create example_join ''/app/migrations'' True Map.empty
      (example_time ''900'') (example_time ''900'') ''add_users'') =
     Some ''/app/migrations/20240305102030_add_users.ts'' \<and>
   m_id (to_migration [] ''/app/migrations/20240305102030_add_users.ts'') = ''20240305102030'' \<and>
   files_after
     (migrate_create example_join ''/app/migrations'' True
        (files_after (migrate_create example_join ''/app/migrations'' True Map.empty
           (example_time ''100'') (example_time ''100'') ''add users''))
        (example_time ''900'') (example_time ''900'') ''add_users'')
     ''/app/migrations/20240305102030_add_users.ts'' =
     Some (MigrationTemplate ''add_users'' ''2024-03-05T10:20:30.900Z'')"
  by code_simp

section \<open>Properties of the deployment server\<close>

subsection \<open>The handler\<close>

lemma copy_search_params_fields:
  "protocol (copy_search_params ps u) = protocol u"
  "hostname (copy_search_params ps u) = hostname u"
  "port (copy_search_params ps u) = port u"
  "pathname (copy_search_params ps u) = pathname u"
  "searchParams (copy_search_params ps u) = searchParams u @ ps"
  unfolding copy_search_params_def
  by (induction ps arbitrary: u) (simp_all add: case_prod_beta)

lemma proxy_call_fields:
  "protocol (call_url (proxy_call apiPort req)) = ''http:''"
  "hostname (call_url (proxy_call apiPort req)) = ''localhost''"
  "port (call_url (proxy_call apiPort req)) = apiPort"
  "pathname (call_url (proxy_call apiPort req)) = pathname (req_url req)"
  "searchParams (call_url (proxy_call apiPort req)) = searchParams (req_url req)"
  "call_method (proxy_call apiPort req) = req_method req"
  "call_headers (proxy_call apiPort req) = req_headers req"
  "call_body (proxy_call apiPort req) = req_body req"
  by (simp_all add: proxy_call_def Let_def copy_search_params_fields)

lemma fetch_handler_api:
  assumes "startsWith (pathname (req_url req)) ''/api/''"
  shows "fetch_handler apiPort join distDir fs fetch req =
     (case fetch (proxy_call apiPort req) of
        Inr apiResponse \<Rightarrow> \<lparr>returned = apiResponse, forwarded = Some (proxy_call apiPort req)\<rparr>
      | Inl message \<Rightarrow>
          \<lparr>returned = \<lparr>status = 502, statusText = [], res_headers = [],
                       res_body = Bytes (''API server error: '' @ message)\<rparr>,
           forwarded = Some (proxy_call apiPort req)\<rparr>)"
  using assms by (simp add: fetch_handler_def Let_def split: sum.splits)

lemma fetch_handler_static:
  assumes "\<not> startsWith (pathname (req_url req)) ''/api/''"
  shows "fetch_handler apiPort join distDir fs fetch req =
     (let path = pathname (req_url req);
          filePath = (if path = ''/'' \<or> (\<not> includes_char path CHR ''.'' \<and> \<not> endsWith path ''/'')
                      then ''/index.html'' else path);
          fullPath = join distDir filePath
      in if existsSync fs fullPath \<and> isFile fs fullPath
         then \<lparr>returned = file_response fullPath, forwarded = None\<rparr>
         else if \<not> includes_char path CHR ''.''
         then \<lparr>returned = file_response (join distDir ''index.html''), forwarded = None\<rparr>
         else \<lparr>returned = \<lparr>status = 404, statusText = [], res_headers = [],
                            res_body = Bytes ''Not Found''\<rparr>,
               forwarded = None\<rparr>)"
  using assms by (simp add: fetch_handler_def Let_def)

lemma listener_fetch_web:
  "kind \<noteq> HttpRedirect \<Longrightarrow>
   listener_fetch kind apiPort join distDir fs href fetch req =
   fetch_handler apiPort join distDir fs fetch req"
  by (cases kind) (simp_all add: listener_fetch_def)

lemma web_kind: "LocalWeb \<noteq> HttpRedirect" "HttpsWeb \<noteq> HttpRedirect" "HttpWeb \<noteq> HttpRedirect"
  by simp_all

lemma starts_api: "startsWith p ''/api/'' = (take 5 p = ''/api/'')"
  by (simp add: startsWith_def eval_nat_numeral)

lemma redirect_forwards_nothing:
  "forwarded (listener_fetch HttpRedirect apiPort join distDir fs href fetch req) = None"
  by (simp add: listener_fetch_def redirect_handler_def Let_def)

lemma static_forwards_nothing:
  assumes "\<not> startsWith (pathname (req_url req)) ''/api/''"
  shows "forwarded (fetch_handler apiPort join distDir fs fetch req) = None"
  unfolding fetch_handler_static [OF assms] by (simp add: Let_def)

lemma api_paths_static:
  assumes "p = ''/api'' \<or> p = ''/apifoo''"
  shows "\<not> startsWith p ''/api/''" "\<not> includes_char p CHR ''.''" "\<not> endsWith p ''/''"
proof -
  have a: "\<not> startsWith ''/api'' ''/api/''" "\<not> includes_char ''/api'' CHR ''.''" "\<not> endsWith ''/api'' ''/''"
    by code_simp+
  have b: "\<not> startsWith ''/apifoo'' ''/api/''" "\<not> includes_char ''/apifoo'' CHR ''.''" "\<not> endsWith ''/apifoo'' ''/''"
    by code_simp+
  from assms a b show "\<not> startsWith p ''/api/''" by blast
  from assms a b show "\<not> includes_char p CHR ''.''" by blast
  from assms a b show "\<not> endsWith p ''/''" by blast
qed

lemma bare_api_is_static:
  assumes p: "pathname (req_url req) = ''/api'' \<or> pathname (req_url req) = ''/apifoo''"
  shows "fetch_handler apiPort join distDir fs fetch req =
     \<lparr>returned =
        (if existsSync fs (join distDir ''/index.html'') \<and> isFile fs (join distDir ''/index.html'')
         then file_response (join distDir ''/index.html'')
         else file_response (join distDir ''index.html'')),
      forwarded = None\<rparr>"
proof -
  note f = api_paths_static [OF p]
  show ?thesis
    unfolding fetch_handler_static [OF f(1)] using f(2,3) by (simp add: Let_def)
qed

subsection \<open>A listener over time\<close>


lemma routing_kinds:
  "kind \<in> {LocalWeb, HttpsWeb, HttpWeb} \<Longrightarrow> kind \<noteq> HttpRedirect"
  by auto

subsection \<open>The static branch\<close>

text \<open>
  For a request whose path does not start with \<^verbatim>\<open>/api/\<close>, a listener that routes calls
  no backend. The path \<^verbatim>\<open>/\<close>, and a path without a dot that does not end in a slash,
  resolve to \<^verbatim>\<open>/index.html\<close>; every other path resolves to itself. If a regular file is
  at the resolved path under the static root, the response has status 200 and that file
  as its body. Otherwise, if the path of the request has no dot, the response has status
  200 and the file \<^verbatim>\<open>index.html\<close> of the static root as its body. Otherwise the response
  has status 404. The handler tests the whole path for a dot, so for it a dot in a
  directory segment counts like one in the file name.
\<close>

lemma static_routing:
  fixes kind :: listener_kind and fetch :: backend and apiPort :: js
    and join :: "string \<Rightarrow> string \<Rightarrow> string" and distDir :: string
    and fs :: "string \<Rightarrow> node option" and href :: "url \<Rightarrow> string" and req :: request
  defines "path \<equiv> pathname (req_url req)"
  defines "resolved \<equiv> (if path = ''/'' \<or> (\<not> includes_char path CHR ''.'' \<and> \<not> endsWith path ''/'')
                         then ''/index.html'' else path)"
  defines "h \<equiv> listener_fetch kind apiPort join distDir fs href fetch req"
  assumes web: "kind \<noteq> HttpRedirect"
    and static: "\<not> startsWith path ''/api/''"
  shows "forwarded h = None \<and>
         (if existsSync fs (join distDir resolved) \<and> isFile fs (join distDir resolved)
          then returned h = file_response (join distDir resolved) \<and> status (returned h) = 200 \<and>
               (\<exists>content. fs (join distDir resolved) = Some (RegularFile content) \<and>
                  sent_bytes fs (res_body (returned h)) = Some content)
          else if \<not> includes_char path CHR ''.''
          then returned h = file_response (join distDir ''index.html'') \<and> status (returned h) = 200 \<and>
               (\<forall>content. fs (join distDir ''index.html'') = Some (RegularFile content) \<longrightarrow>
                  sent_bytes fs (res_body (returned h)) = Some content)
          else status (returned h) = 404 \<and> res_body (returned h) = Bytes ''Not Found'')"
proof -
  have h: "h = (if existsSync fs (join distDir resolved) \<and> isFile fs (join distDir resolved)
         then \<lparr>returned = file_response (join distDir resolved), forwarded = None\<rparr>
         else if \<not> includes_char path CHR ''.''
         then \<lparr>returned = file_response (join distDir ''index.html''), forwarded = None\<rparr>
         else \<lparr>returned = \<lparr>status = 404, statusText = [], res_headers = [],
                            res_body = Bytes ''Not Found''\<rparr>,
               forwarded = None\<rparr>)"
    using static unfolding h_def resolved_def path_def
    by (simp add: listener_fetch_web [OF web] fetch_handler_static Let_def)
  have reg: "isFile fs p \<Longrightarrow>
      \<exists>content. fs p = Some (RegularFile content) \<and> sent_bytes fs (BunFile p) = Some content" for p
    by (auto simp: isFile_def sent_bytes_def split: option.splits node.splits)
  have idx: "fs p = Some (RegularFile content) \<Longrightarrow> sent_bytes fs (BunFile p) = Some content"
    for p content
    by (simp add: sent_bytes_def)
  show ?thesis
    unfolding h by (simp add: file_response_def reg idx)
qed

lemma static_routing_examples:
  "LocalWeb \<noteq> HttpRedirect \<and>
   \<not> startsWith (pathname (req_url (example_get ''/dashboard'' []))) ''/api/'' \<and>
   \<not> startsWith (pathname (req_url (example_get ''/missing.png'' []))) ''/api/'' \<and>
   status (returned (listener_fetch LocalWeb (Num 3000) example_path_join ''/app/_dist'' example_dist
      example_href example_backend (example_get ''/dashboard'' []))) = 200 \<and>
   sent_bytes example_dist (res_body (returned (listener_fetch LocalWeb (Num 3000) example_path_join
      ''/app/_dist'' example_dist example_href example_backend (example_get ''/dashboard'' [])))) =
     Some ''<html>Argon</html>'' \<and>
   status (returned (listener_fetch LocalWeb (Num 3000) example_path_join ''/app/_dist'' example_dist
      example_href example_backend (example_get ''/missing.png'' []))) = 404 \<and>
   \<not> startsWith (pathname (req_url (example_get ''/nodes/'' []))) ''/api/'' \<and>
   sent_bytes example_dist (res_body (returned (listener_fetch LocalWeb (Num 3000) example_path_join
      ''/app/_dist'' example_dist example_href example_backend (example_get ''/nodes/'' [])))) =
     Some ''<html>Argon</html>''"
proof -
  have p1: "\<not> startsWith (pathname (req_url (example_get ''/dashboard'' []))) ''/api/''"
    and p2: "\<not> startsWith (pathname (req_url (example_get ''/missing.png'' []))) ''/api/''"
    by code_simp+
  note t1 = static_routing [where fs = example_dist and join = example_path_join
      and distDir = "''/app/_dist''" and apiPort = "Num 3000" and href = example_href
      and fetch = example_backend, OF web_kind(1) p1]
  note t2 = static_routing [where fs = example_dist and join = example_path_join
      and distDir = "''/app/_dist''" and apiPort = "Num 3000" and href = example_href
      and fetch = example_backend, OF web_kind(1) p2]
  have e1: "existsSync example_dist (example_path_join ''/app/_dist'' ''/index.html'') \<and>
            isFile example_dist (example_path_join ''/app/_dist'' ''/index.html'')"
    by code_simp
  have r1: "(if pathname (req_url (example_get ''/dashboard'' [])) = ''/'' \<or>
               (\<not> includes_char (pathname (req_url (example_get ''/dashboard'' []))) CHR ''.'' \<and>
                \<not> endsWith (pathname (req_url (example_get ''/dashboard'' []))) ''/'')
            then ''/index.html'' else pathname (req_url (example_get ''/dashboard'' []))) = ''/index.html''"
    by code_simp
  have c1: "example_dist (example_path_join ''/app/_dist'' ''/index.html'') = Some (RegularFile ''<html>Argon</html>'')"
    by code_simp
  from t1 e1 c1 have a: "status (returned (listener_fetch LocalWeb (Num 3000) example_path_join ''/app/_dist'' example_dist
      example_href example_backend (example_get ''/dashboard'' []))) = 200 \<and>
     sent_bytes example_dist (res_body (returned (listener_fetch LocalWeb (Num 3000) example_path_join
      ''/app/_dist'' example_dist example_href example_backend (example_get ''/dashboard'' [])))) =
     Some ''<html>Argon</html>''"
    unfolding r1 by auto
  have r2: "(if pathname (req_url (example_get ''/missing.png'' [])) = ''/'' \<or>
               (\<not> includes_char (pathname (req_url (example_get ''/missing.png'' []))) CHR ''.'' \<and>
                \<not> endsWith (pathname (req_url (example_get ''/missing.png'' []))) ''/'')
            then ''/index.html'' else pathname (req_url (example_get ''/missing.png'' []))) = ''/missing.png''"
    by code_simp
  have e2: "\<not> (existsSync example_dist (example_path_join ''/app/_dist'' ''/missing.png'') \<and>
            isFile example_dist (example_path_join ''/app/_dist'' ''/missing.png''))"
    by code_simp
  have d2: "includes_char (pathname (req_url (example_get ''/missing.png'' []))) CHR ''.''"
    by code_simp
  from t2 e2 d2 have b: "status (returned (listener_fetch LocalWeb (Num 3000) example_path_join ''/app/_dist'' example_dist
      example_href example_backend (example_get ''/missing.png'' []))) = 404"
    unfolding r2 by auto
  have p3: "\<not> startsWith (pathname (req_url (example_get ''/nodes/'' []))) ''/api/''"
    by code_simp
  note t3 = static_routing [where fs = example_dist and join = example_path_join
      and distDir = "''/app/_dist''" and apiPort = "Num 3000" and href = example_href
      and fetch = example_backend, OF web_kind(1) p3]
  have r3: "(if pathname (req_url (example_get ''/nodes/'' [])) = ''/'' \<or>
               (\<not> includes_char (pathname (req_url (example_get ''/nodes/'' []))) CHR ''.'' \<and>
                \<not> endsWith (pathname (req_url (example_get ''/nodes/'' []))) ''/'')
            then ''/index.html'' else pathname (req_url (example_get ''/nodes/'' []))) = ''/nodes/''"
    by code_simp
  have e3: "\<not> (existsSync example_dist (example_path_join ''/app/_dist'' ''/nodes/'') \<and>
            isFile example_dist (example_path_join ''/app/_dist'' ''/nodes/''))"
    by code_simp
  have d3: "\<not> includes_char (pathname (req_url (example_get ''/nodes/'' []))) CHR ''.''"
    by code_simp
  have c3: "example_dist (example_path_join ''/app/_dist'' ''index.html'') = Some (RegularFile ''<html>Argon</html>'')"
    by code_simp
  from t3 e3 d3 c3 have c: "sent_bytes example_dist (res_body (returned (listener_fetch LocalWeb (Num 3000) example_path_join
      ''/app/_dist'' example_dist example_href example_backend (example_get ''/nodes/'' [])))) =
     Some ''<html>Argon</html>''"
    unfolding r3 by auto
  show ?thesis using web_kind(1) p1 p2 p3 a b c by blast
qed

subsection \<open>The backend behind \<^verbatim>\<open>fetch\<close>\<close>

lemma follow_relays:
  "server call = Inr r \<Longrightarrow> \<not> redirects r \<Longrightarrow> follow (Suc n) next_call server call = Inr r"
  by simp

lemma runtime_fetch_relays:
  assumes a: "server call = Inr r" and b: "\<not> redirects r"
    and c: "header_value ''content-encoding'' (res_headers r) = None"
  shows "runtime_fetch next_call decode server call = Inr r"
proof -
  have "follow (Suc 20) next_call server call = Inr r"
    using a b by (rule follow_relays)
  then have "follow 21 next_call server call = Inr r"
    by simp
  then show ?thesis using c by (simp add: runtime_fetch_def decoded_def)
qed

section \<open>The claims about the deployment server\<close>

text \<open>
  Claim C5, as amended. Each listener that routes (the local web server, the HTTPS
  server, the HTTP server) forwards a request whose path starts with \<^verbatim>\<open>/api/\<close>: its
  handler calls \<^verbatim>\<open>fetch\<close> for \<^verbatim>\<open>http://localhost:<apiPort>\<close> with the path of the request,
  all its query parameters in their order, its method, its headers and its body, and
  returns a response with the status, status text, headers and body of the response
  \<^verbatim>\<open>fetch\<close> resolves with. That is the response of the backend, unchanged, when the
  backend answers the call with a response that is no redirect and has no
  \<^verbatim>\<open>Content-Encoding\<close>. (The listener on port 80 beside the HTTPS server routes nothing:
  it redirects every request to the HTTPS server.)
\<close>

theorem api_requests_are_forwarded:
  fixes apiPort :: js
    and join :: "string \<Rightarrow> string \<Rightarrow> string" and distDir :: string
    and fs :: "string \<Rightarrow> node option" and href :: "url \<Rightarrow> string" and req :: request
    and next_call :: "api_call \<Rightarrow> response \<Rightarrow> string + api_call"
    and decode :: "string \<Rightarrow> body \<Rightarrow> body" and server :: http_server
  defines "fetch \<equiv> runtime_fetch next_call decode server"
  assumes api: "startsWith (pathname (req_url req)) ''/api/''"
  shows "\<forall>kind \<in> {LocalWeb, HttpsWeb, HttpWeb}.
         \<exists>call. forwarded (listener_fetch kind apiPort join distDir fs href fetch req) = Some call \<and>
           protocol (call_url call) = ''http:'' \<and> hostname (call_url call) = ''localhost'' \<and>
           port (call_url call) = apiPort \<and>
           pathname (call_url call) = pathname (req_url req) \<and>
           searchParams (call_url call) = searchParams (req_url req) \<and>
           call_method call = req_method req \<and>
           call_headers call = req_headers req \<and>
           call_body call = req_body req \<and>
           (\<forall>r. server call = Inr r \<and> \<not> redirects r \<and>
                 header_value ''content-encoding'' (res_headers r) = None \<longrightarrow>
              returned (listener_fetch kind apiPort join distDir fs href fetch req) = r) \<and>
           (\<forall>apiResponse. fetch call = Inr apiResponse \<longrightarrow>
              returned (listener_fetch kind apiPort join distDir fs href fetch req) = apiResponse)"
proof
  fix kind assume "kind \<in> {LocalWeb, HttpsWeb, HttpWeb}"
  then have web: "kind \<noteq> HttpRedirect" by (rule routing_kinds)
  define h where "h = listener_fetch kind apiPort join distDir fs href fetch req"
  have h: "h = (case fetch (proxy_call apiPort req) of
        Inr apiResponse \<Rightarrow> \<lparr>returned = apiResponse, forwarded = Some (proxy_call apiPort req)\<rparr>
      | Inl message \<Rightarrow>
          \<lparr>returned = \<lparr>status = 502, statusText = [], res_headers = [],
                       res_body = Bytes (''API server error: '' @ message)\<rparr>,
           forwarded = Some (proxy_call apiPort req)\<rparr>)"
    unfolding h_def by (simp add: listener_fetch_web [OF web] fetch_handler_api [OF api])
  have f: "forwarded h = Some (proxy_call apiPort req)"
    unfolding h by (simp split: sum.splits)
  have r: "\<forall>apiResponse. fetch (proxy_call apiPort req) = Inr apiResponse \<longrightarrow> returned h = apiResponse"
    unfolding h by simp
  have s: "\<forall>r. server (proxy_call apiPort req) = Inr r \<and> \<not> redirects r \<and>
                 header_value ''content-encoding'' (res_headers r) = None \<longrightarrow> returned h = r"
  proof (intro allI impI)
    fix a assume a: "server (proxy_call apiPort req) = Inr a \<and> \<not> redirects a \<and>
                 header_value ''content-encoding'' (res_headers a) = None"
    then have "fetch (proxy_call apiPort req) = Inr a"
      unfolding fetch_def by (simp add: runtime_fetch_relays)
    with r show "returned h = a" by blast
  qed
  show "\<exists>call. forwarded (listener_fetch kind apiPort join distDir fs href fetch req) = Some call \<and>
           protocol (call_url call) = ''http:'' \<and> hostname (call_url call) = ''localhost'' \<and>
           port (call_url call) = apiPort \<and>
           pathname (call_url call) = pathname (req_url req) \<and>
           searchParams (call_url call) = searchParams (req_url req) \<and>
           call_method call = req_method req \<and>
           call_headers call = req_headers req \<and>
           call_body call = req_body req \<and>
           (\<forall>r. server call = Inr r \<and> \<not> redirects r \<and>
                 header_value ''content-encoding'' (res_headers r) = None \<longrightarrow>
              returned (listener_fetch kind apiPort join distDir fs href fetch req) = r) \<and>
           (\<forall>apiResponse. fetch call = Inr apiResponse \<longrightarrow>
              returned (listener_fetch kind apiPort join distDir fs href fetch req) = apiResponse)"
    using f r s unfolding h_def
    by (intro exI [of _ "proxy_call apiPort req"]) (simp add: proxy_call_fields)
qed

theorem api_requests_are_forwarded_witness:
  "startsWith (pathname (req_url (example_get ''/api/widgets'' [(''x'', ''1'')]))) ''/api/'' \<and>
   (\<exists>call. forwarded (listener_fetch HttpsWeb (Num 3000) example_path_join ''/app/_dist'' example_dist
        example_href (runtime_fetch example_next_call example_decode example_backend)
        (example_get ''/api/widgets'' [(''x'', ''1'')])) = Some call \<and>
      port (call_url call) = Num 3000 \<and> pathname (call_url call) = ''/api/widgets'' \<and>
      searchParams (call_url call) = [(''x'', ''1'')] \<and> call_method call = ''GET'' \<and>
      example_backend call = Inr \<lparr>status = 201, statusText = ''Created'',
          res_headers = [(''content-type'', ''application/json'')], res_body = Bytes ''created''\<rparr>) \<and>
   \<not> redirects \<lparr>status = 201, statusText = ''Created'',
          res_headers = [(''content-type'', ''application/json'')], res_body = Bytes ''created''\<rparr> \<and>
   header_value ''content-encoding'' [(''content-type'', ''application/json'')] = None \<and>
   returned (listener_fetch HttpsWeb (Num 3000) example_path_join ''/app/_dist'' example_dist
        example_href (runtime_fetch example_next_call example_decode example_backend)
        (example_get ''/api/widgets'' [(''x'', ''1'')])) =
     \<lparr>status = 201, statusText = ''Created'',
      res_headers = [(''content-type'', ''application/json'')], res_body = Bytes ''created''\<rparr>"
proof -
  let ?r = "\<lparr>status = 201, statusText = ''Created'',
      res_headers = [(''content-type'', ''application/json'')], res_body = Bytes ''created''\<rparr>"
  let ?h = "listener_fetch HttpsWeb (Num 3000) example_path_join ''/app/_dist'' example_dist
        example_href (runtime_fetch example_next_call example_decode example_backend)
        (example_get ''/api/widgets'' [(''x'', ''1'')])"
  have api: "startsWith (pathname (req_url (example_get ''/api/widgets'' [(''x'', ''1'')]))) ''/api/''"
    by code_simp
  have k: "HttpsWeb \<in> {LocalWeb, HttpsWeb, HttpWeb}" by simp
  have nr: "\<not> redirects ?r" by (simp add: redirects_def)
  have ne: "header_value ''content-encoding'' [(''content-type'', ''application/json'')] = None"
    by code_simp
  have b: "example_backend call = Inr ?r" for call by (simp add: example_backend_def)
  from api_requests_are_forwarded [OF api, of "Num 3000" example_path_join "''/app/_dist''"
      example_dist example_href example_next_call example_decode example_backend, THEN bspec, OF k]
  obtain call where c:
    "forwarded ?h = Some call"
    "port (call_url call) = Num 3000"
    "pathname (call_url call) = pathname (req_url (example_get ''/api/widgets'' [(''x'', ''1'')]))"
    "searchParams (call_url call) = searchParams (req_url (example_get ''/api/widgets'' [(''x'', ''1'')]))"
    "call_method call = req_method (example_get ''/api/widgets'' [(''x'', ''1'')])"
    "\<forall>r. example_backend call = Inr r \<and> \<not> redirects r \<and>
         header_value ''content-encoding'' (res_headers r) = None \<longrightarrow> returned ?h = r"
    by blast
  from c(6) b [of call] nr ne have s: "returned ?h = ?r"
    by simp
  have "\<exists>call. forwarded ?h = Some call \<and>
      port (call_url call) = Num 3000 \<and> pathname (call_url call) = ''/api/widgets'' \<and>
      searchParams (call_url call) = [(''x'', ''1'')] \<and> call_method call = ''GET'' \<and>
      example_backend call = Inr ?r"
    using c(1-5) b [of call] by (intro exI [of _ call]) (simp add: example_get_def)
  with api s nr ne show ?thesis by blast
qed

text \<open>
  The claim as stated fails where \<^verbatim>\<open>fetch\<close> does not resolve with what the backend
  sent: the backend answers \<^verbatim>\<open>GET /api/old\<close> with status 302 and
  \<^verbatim>\<open>Location: /api/new\<close>; \<^verbatim>\<open>fetch\<close> follows the redirect, and the handler returns the
  status 200, the headers and the body of \<^verbatim>\<open>/api/new\<close>, not the 302 of the backend.
\<close>

theorem backend_redirect_is_followed:
  "startsWith (pathname (req_url (example_get ''/api/old'' []))) ''/api/'' \<and>
   example_server (proxy_call (Num 3000) (example_get ''/api/old'' [])) =
     Inr \<lparr>status = 302, statusText = ''Found'', res_headers = [(''Location'', ''/api/new'')],
          res_body = NoBody\<rparr> \<and>
   forwarded (listener_fetch LocalWeb (Num 3000) example_path_join ''/app/_dist'' example_dist
      example_href (runtime_fetch example_next_call example_decode example_server)
      (example_get ''/api/old'' [])) = Some (proxy_call (Num 3000) (example_get ''/api/old'' [])) \<and>
   returned (listener_fetch LocalWeb (Num 3000) example_path_join ''/app/_dist'' example_dist
      example_href (runtime_fetch example_next_call example_decode example_server)
      (example_get ''/api/old'' [])) =
     \<lparr>status = 200, statusText = ''OK'', res_headers = [(''content-type'', ''text/plain'')],
      res_body = Bytes ''moved here''\<rparr>"
  by code_simp

text \<open>
  Claim C6. By the claim a path that lacks a file extension and does not end in a slash
  resolves to \<^verbatim>\<open>/index.html\<close>, and a path without an extension at which no file is found
  is answered with \<^verbatim>\<open>index.html\<close> and status 200; the comments of the handler say the
  same. The handler tests the whole path for a dot instead. The path
  \<^verbatim>\<open>/docs/v1.2/intro\<close> does not start with \<^verbatim>\<open>/api/\<close> and does not end in a slash, and
  its last segment \<^verbatim>\<open>intro\<close> has no dot, hence no extension. With \<^verbatim>\<open>index.html\<close> present
  under the static root and no file at that path, each listener that routes answers
  404 \<^verbatim>\<open>Not Found\<close>, where the claim gives \<^verbatim>\<open>index.html\<close> with status 200.
\<close>

theorem dotted_directory_route_is_not_found:
  "\<not> startsWith ''/docs/v1.2/intro'' ''/api/'' \<and>
   last_segment ''/docs/v1.2/intro'' = ''intro'' \<and>
   \<not> includes_char (last_segment ''/docs/v1.2/intro'') CHR ''.'' \<and>
   \<not> endsWith ''/docs/v1.2/intro'' ''/'' \<and>
   example_dist (example_path_join ''/app/_dist'' ''index.html'') = Some (RegularFile ''<html>Argon</html>'') \<and>
   returned (listener_fetch LocalWeb (Num 3000) example_path_join ''/app/_dist'' example_dist
      example_href example_backend (example_get ''/docs/v1.2/intro'' [])) =
     \<lparr>status = 404, statusText = [], res_headers = [], res_body = Bytes ''Not Found''\<rparr> \<and>
   returned (listener_fetch HttpsWeb (Num 3000) example_path_join ''/app/_dist'' example_dist
      example_href example_backend (example_get ''/docs/v1.2/intro'' [])) =
     \<lparr>status = 404, statusText = [], res_headers = [], res_body = Bytes ''Not Found''\<rparr> \<and>
   returned (listener_fetch HttpWeb (Num 3000) example_path_join ''/app/_dist'' example_dist
      example_href example_backend (example_get ''/docs/v1.2/intro'' [])) =
     \<lparr>status = 404, statusText = [], res_headers = [], res_body = Bytes ''Not Found''\<rparr>"
  by code_simp



text \<open>
  Claim C10. The handler of every listener calls the backend only for a request whose
  path starts with the five characters \<^verbatim>\<open>/api/\<close>, and the redirecting listener never
  does. For the paths \<^verbatim>\<open>/api\<close> and \<^verbatim>\<open>/apifoo\<close> a routing listener calls no backend
  and answers as for any path without a dot: with \<^verbatim>\<open>/index.html\<close> under the static root
  if that is a regular file, and with the fallback to \<^verbatim>\<open>index.html\<close> otherwise.
\<close>

theorem only_api_slash_is_proxied:
  fixes kind :: listener_kind and fetch :: backend and apiPort :: js
    and join :: "string \<Rightarrow> string \<Rightarrow> string" and distDir :: string
    and fs :: "string \<Rightarrow> node option" and href :: "url \<Rightarrow> string" and req :: request
  defines "path \<equiv> pathname (req_url req)"
  defines "h \<equiv> listener_fetch kind apiPort join distDir fs href fetch req"
  shows "(forwarded h \<noteq> None \<longrightarrow> take 5 path = ''/api/'' \<and> kind \<noteq> HttpRedirect) \<and>
         (take 5 path \<noteq> ''/api/'' \<longrightarrow> forwarded h = None) \<and>
         (kind \<noteq> HttpRedirect \<and> (path = ''/api'' \<or> path = ''/apifoo'') \<longrightarrow>
            forwarded h = None \<and>
            returned h =
              (if existsSync fs (join distDir ''/index.html'') \<and> isFile fs (join distDir ''/index.html'')
               then file_response (join distDir ''/index.html'')
               else file_response (join distDir ''index.html'')))"
proof (intro conjI impI)
  have red: "kind = HttpRedirect \<Longrightarrow> forwarded h = None"
    unfolding h_def by (simp add: redirect_forwards_nothing)
  have static: "forwarded h = None" if n: "take 5 path \<noteq> ''/api/''"
  proof (cases "kind = HttpRedirect")
    case True
    then show ?thesis by (rule red)
  next
    case False
    from n have "\<not> startsWith (pathname (req_url req)) ''/api/''"
      unfolding path_def by (simp add: starts_api)
    then show ?thesis
      unfolding h_def listener_fetch_web [OF False] by (rule static_forwards_nothing)
  qed
  {
    assume f: "forwarded h \<noteq> None"
    show "take 5 path = ''/api/''"
    proof (rule ccontr)
      assume "take 5 path \<noteq> ''/api/''"
      from static [OF this] f show False by simp
    qed
    show "kind \<noteq> HttpRedirect"
    proof
      assume "kind = HttpRedirect"
      from red [OF this] f show False by simp
    qed
  }
  {
    assume "take 5 path \<noteq> ''/api/''"
    then show "forwarded h = None" by (rule static)
  }
  {
    assume a: "kind \<noteq> HttpRedirect \<and> (path = ''/api'' \<or> path = ''/apifoo'')"
    then have web: "kind \<noteq> HttpRedirect"
      and p: "pathname (req_url req) = ''/api'' \<or> pathname (req_url req) = ''/apifoo''"
      unfolding path_def by simp_all
    have h: "h = \<lparr>returned =
        (if existsSync fs (join distDir ''/index.html'') \<and> isFile fs (join distDir ''/index.html'')
         then file_response (join distDir ''/index.html'')
         else file_response (join distDir ''index.html'')),
      forwarded = None\<rparr>"
      unfolding h_def listener_fetch_web [OF web] by (rule bare_api_is_static [OF p])
    show "forwarded h = None" unfolding h by simp
    show "returned h =
              (if existsSync fs (join distDir ''/index.html'') \<and> isFile fs (join distDir ''/index.html'')
               then file_response (join distDir ''/index.html'')
               else file_response (join distDir ''index.html''))"
      unfolding h by simp
  }
qed

theorem only_api_slash_is_proxied_witness:
  "HttpWeb \<noteq> HttpRedirect \<and> pathname (req_url (example_get ''/api'' [])) = ''/api'' \<and>
   take 5 (pathname (req_url (example_get ''/api'' []))) \<noteq> ''/api/'' \<and>
   forwarded (listener_fetch HttpWeb (Num 3000) example_path_join ''/app/_dist'' example_dist
      example_href example_backend (example_get ''/api'' [])) = None \<and>
   returned (listener_fetch HttpWeb (Num 3000) example_path_join ''/app/_dist'' example_dist
      example_href example_backend (example_get ''/api'' [])) =
     file_response ''/app/_dist/index.html'' \<and>
   forwarded (listener_fetch HttpWeb (Num 3000) example_path_join ''/app/_dist'' example_dist
      example_href example_backend (example_get ''/api/nodes'' [])) \<noteq> None \<and>
   take 5 (pathname (req_url (example_get ''/api/nodes'' []))) = ''/api/''"
proof -
  have p: "pathname (req_url (example_get ''/api'' [])) = ''/api''" by (simp add: example_get_def)
  have n: "take 5 (pathname (req_url (example_get ''/api'' []))) \<noteq> ''/api/''" by (simp add: example_get_def)
  note t = only_api_slash_is_proxied [where kind = HttpWeb and apiPort = "Num 3000"
      and join = example_path_join and distDir = "''/app/_dist''" and fs = example_dist
      and href = example_href and fetch = example_backend and req = "example_get ''/api'' []"]
  note u = only_api_slash_is_proxied [where kind = HttpWeb and apiPort = "Num 3000"
      and join = example_path_join and distDir = "''/app/_dist''" and fs = example_dist
      and href = example_href and fetch = example_backend and req = "example_get ''/api/nodes'' []"]
  have e: "existsSync example_dist (example_path_join ''/app/_dist'' ''/index.html'') \<and>
           isFile example_dist (example_path_join ''/app/_dist'' ''/index.html'')"
    by code_simp
  have j: "example_path_join ''/app/_dist'' ''/index.html'' = ''/app/_dist/index.html''" by code_simp
  from t p web_kind(3) have "forwarded (listener_fetch HttpWeb (Num 3000) example_path_join ''/app/_dist'' example_dist
      example_href example_backend (example_get ''/api'' [])) = None \<and>
   returned (listener_fetch HttpWeb (Num 3000) example_path_join ''/app/_dist'' example_dist
      example_href example_backend (example_get ''/api'' [])) =
     (if existsSync example_dist (example_path_join ''/app/_dist'' ''/index.html'') \<and>
         isFile example_dist (example_path_join ''/app/_dist'' ''/index.html'')
      then file_response (example_path_join ''/app/_dist'' ''/index.html'')
      else file_response (example_path_join ''/app/_dist'' ''index.html''))"
    by blast
  with e have a: "forwarded (listener_fetch HttpWeb (Num 3000) example_path_join ''/app/_dist'' example_dist
      example_href example_backend (example_get ''/api'' [])) = None \<and>
   returned (listener_fetch HttpWeb (Num 3000) example_path_join ''/app/_dist'' example_dist
      example_href example_backend (example_get ''/api'' [])) =
     file_response ''/app/_dist/index.html''"
    unfolding j by simp
  have f: "forwarded (listener_fetch HttpWeb (Num 3000) example_path_join ''/app/_dist'' example_dist
      example_href example_backend (example_get ''/api/nodes'' [])) \<noteq> None"
    by code_simp
  with u have b: "take 5 (pathname (req_url (example_get ''/api/nodes'' []))) = ''/api/''"
    by blast
  show ?thesis using web_kind(3) p n a f b by blast
qed

section \<open>The claim about the certificate files\<close>

lemma resolve_sslPath_missing:
  assumes "string_or (merged_sslPath c options) (cfg_sslPath c) = Some sslPath" and "sslPath \<noteq> []"
    and "\<not> exists_at w (path_join w sslPath ''privkey.pem'') \<or>
         \<not> exists_at w (path_join w sslPath ''fullchain.pem'')"
  shows "resolve_sslPath w c replies options = Inl 1"
  using assms by (auto simp: resolve_sslPath_def Let_def truthy_string_def)

lemma stopped_fields:
  "ended (stopped how) = how" "listeners (stopped how) = []" "api_spawned (stopped how) = False"
  by (simp_all add: stopped_def)

text \<open>
  Claim C8, as amended. In a deployment that is not local, let the certificate path
  come from the command line or the saved configuration, and let \<^verbatim>\<open>privkey.pem\<close> or
  \<^verbatim>\<open>fullchain.pem\<close> be missing under it. Then the command exits with code 1, and it has
  opened no listener and has not spawned the API process.
\<close>

theorem missing_certificate_file_stops_deploy:
  fixes w :: world and replies :: prompts and options :: deploy_options
  defines "c \<equiv> load_config w options"
  assumes not_local: "deploymentType c replies options \<noteq> Some Local"
    and given: "string_or (merged_sslPath c options) (cfg_sslPath c) = Some sslPath" "sslPath \<noteq> []"
    and missing: "\<not> exists_at w (path_join w sslPath ''privkey.pem'') \<or>
                  \<not> exists_at w (path_join w sslPath ''fullchain.pem'')"
  shows "ended (deploy w replies options) = Exit 1 \<and>
         listeners (deploy w replies options) = [] \<and>
         \<not> api_spawned (deploy w replies options)"
proof -
  have r: "resolve_sslPath w (load_config w options) replies options = Inl 1"
    using given missing unfolding c_def by (rule resolve_sslPath_missing)
  have "deploy w replies options = stopped (Exit 1)"
    using not_local r unfolding c_def by (simp add: deploy_def Let_def)
  then show ?thesis by (simp add: stopped_fields)
qed

theorem missing_certificate_file_stops_deploy_witness:
  "deploymentType (load_config example_world example_options_domain) example_replies example_options_domain \<noteq> Some Local \<and>
   string_or (merged_sslPath (load_config example_world example_options_domain) example_options_domain)
     (cfg_sslPath (load_config example_world example_options_domain)) = Some ''/etc/letsencrypt/live/panel'' \<and>
   ''/etc/letsencrypt/live/panel'' \<noteq> [] \<and>
   \<not> exists_at example_world (path_join example_world ''/etc/letsencrypt/live/panel'' ''privkey.pem'') \<and>
   ended (deploy example_world example_replies example_options_domain) = Exit 1 \<and>
   listeners (deploy example_world example_replies example_options_domain) = []"
proof -
  have a: "deploymentType (load_config example_world example_options_domain) example_replies example_options_domain \<noteq> Some Local"
    by code_simp
  have b: "string_or (merged_sslPath (load_config example_world example_options_domain) example_options_domain)
     (cfg_sslPath (load_config example_world example_options_domain)) = Some ''/etc/letsencrypt/live/panel''"
    by code_simp
  have n: "''/etc/letsencrypt/live/panel'' \<noteq> []" by simp
  have k: "\<not> exists_at example_world (path_join example_world ''/etc/letsencrypt/live/panel'' ''privkey.pem'')"
    by code_simp
  then have m: "\<not> exists_at example_world (path_join example_world ''/etc/letsencrypt/live/panel'' ''privkey.pem'') \<or>
      \<not> exists_at example_world (path_join example_world ''/etc/letsencrypt/live/panel'' ''fullchain.pem'')"
    by (rule disjI1)
  note t = missing_certificate_file_stops_deploy [OF a b n m]
  show ?thesis using a b n k t by blast
qed

text \<open>
  The claim as stated fails in a local deployment, which does not read the certificate
  path: with \<^verbatim>\<open>--local --ssl-path\<close> and no private key under the path the command
  goes on and opens the plaintext listener of the local web server.
\<close>

theorem local_deploy_ignores_certificate_path:
  "opt_sslPath example_options_local = Some ''/etc/letsencrypt/live/panel'' \<and>
   \<not> exists_at example_world (path_join example_world ''/etc/letsencrypt/live/panel'' ''privkey.pem'') \<and>
   ended (deploy example_world example_replies example_options_local) = Running \<and>
   listeners (deploy example_world example_replies example_options_local) =
     [\<lparr>l_kind = LocalWeb, l_port = Num 3001, l_tls = None\<rparr>] \<and>
   api_spawned (deploy example_world example_replies example_options_local)"
  by code_simp

text \<open>
  So it is in every local deployment: the command is a function of the steps of the
  build and of the port of the local web server, and neither the certificate path nor
  the files under it enter it.
\<close>

lemma local_deploy_does_not_read_certificate_path:
  fixes w :: world and replies :: prompts and options :: deploy_options
  defines "c \<equiv> load_config w options"
  defines "webPort \<equiv> js_or (merged_webPort c options) (js_or (cfg_webPort c) (Num 3001))"
  defines "uiPath \<equiv> (if \<not> opt_force options \<and> \<not> exists_at w (expectedUIPath w)
                    then (if confirm replies then expectedUIPath w else customPath replies)
                    else expectedUIPath w)"
  assumes local: "deploymentType c replies options = Some Local"
  shows "deploy w replies options =
     (if \<not> exists_at w uiPath then stopped (Exit 1)
      else if install_status w \<noteq> 0 then stopped (Exit 1)
      else if \<not> env_written w then stopped (Exit 1)
      else if build_status w \<noteq> 0 then stopped (Exit 1)
      else if dist_exists w \<and> \<not> rm_ok w then stopped Uncaught
      else if \<not> mkdir_ok w then stopped (Exit 1)
      else if \<not> ui_dist_built w then stopped (Exit 1)
      else if \<not> copy_ok w then stopped Uncaught
      else if (opt_force options \<or> saveConfigConfirm replies) \<and> \<not> save_ok w then stopped Uncaught
      else if can_listen w webPort
      then \<lparr>ended = Running,
            listeners = [\<lparr>l_kind = LocalWeb, l_port = webPort, l_tls = None\<rparr>],
            api_spawned = True\<rparr>
      else \<lparr>ended = Uncaught, listeners = [], api_spawned = True\<rparr>)"
  using local unfolding c_def webPort_def uiPath_def
  by (simp add: deploy_def Let_def start_servers_def)

text \<open>
  A path the operator types at the question is checked for existence only; with no
  private key under it \<^verbatim>\<open>readFileSync\<close> throws when the servers start, and the
  \<^verbatim>\<open>catch\<close> falls back to the plaintext listener on port 80.
\<close>

lemma typed_certificate_path_falls_back:
  "sslConfirm example_replies \<and> sslPathAnswer example_replies = ''/etc/letsencrypt/live/panel'' \<and>
   exists_at example_world (sslPathAnswer example_replies) \<and>
   \<not> exists_at example_world (path_join example_world ''/etc/letsencrypt/live/panel'' ''privkey.pem'') \<and>
   ended (deploy example_world example_replies example_options_asked) = Running \<and>
   listeners (deploy example_world example_replies example_options_asked) =
     [\<lparr>l_kind = HttpWeb, l_port = Num 80, l_tls = None\<rparr>]"
  by code_simp

end
